theory Spec2Isabelle
  imports Main "HOL-Library.Word" "HOL-Library.AList"
begin

section \<open>JavaScript values\<close>

text \<open>
  A JavaScript string is a sequence of 16-bit code units. Property names are the ASCII
  identifiers the program writes, so object keys are HOL strings. An object is a plain
  object (its prototype is \<open>Object.prototype\<close>, its properties hold data), as an
  association list in insertion order. A number of the model is an integer of magnitude
  below \<open>2^53\<close>, given by sign and magnitude so that \<open>-0\<close> is among them, or \<open>NaN\<close>:
  JavaScript holds these exactly and prints them in plain decimal.
\<close>

type_synonym jschar = "16 word"
type_synonym jsstring = "jschar list"

definition ustr :: "string \<Rightarrow> jsstring" where
  "ustr s = map (\<lambda>c. of_nat (of_char c)) s"

datatype jsval =
    JUndefined
  | JNull
  | JBool bool
  | JNum bool "53 word"
  | JNaN
  | JStr jsstring
  | JObj "(string \<times> jsval) list"

type_synonym jsobject = "(string \<times> jsval) list"

text \<open>
  The exceptions of the program: the TypeError of the language, and the two exceptions
  of \<open>classList\<close>.
\<close>

datatype error = TypeError | SyntaxError | InvalidCharacterError

text \<open>ToBoolean: \<open>undefined\<close>, \<open>null\<close>, \<open>false\<close>, \<open>0\<close>, \<open>NaN\<close> and \<open>''\<close> are falsy.\<close>

fun truthy :: "jsval \<Rightarrow> bool" where
  "truthy JUndefined = False"
| "truthy JNull = False"
| "truthy (JBool b) = b"
| "truthy (JNum negative m) = (m \<noteq> 0)"
| "truthy JNaN = False"
| "truthy (JStr s) = (s \<noteq> [])"
| "truthy (JObj kvs) = True"

text \<open>\<open>a || b\<close>\<close>

definition or_js :: "jsval \<Rightarrow> jsval \<Rightarrow> jsval" where
  "or_js a b = (if truthy a then a else b)"

text \<open>
  Property read \<open>v.k\<close>, for the keys this program reads (none of them is a property of
  a prototype). Reading a property of \<open>undefined\<close> or \<open>null\<close> throws a TypeError; a
  primitive has none of these properties; an object without the key gives \<open>undefined\<close>.
\<close>

fun has_props :: "jsval \<Rightarrow> bool" where
  "has_props JUndefined = False"
| "has_props JNull = False"
| "has_props v = True"

fun property :: "jsval \<Rightarrow> string \<Rightarrow> jsval" where
  "property (JObj kvs) k = (case map_of kvs k of None \<Rightarrow> JUndefined | Some v \<Rightarrow> v)"
| "property v k = JUndefined"

definition get_prop :: "jsval \<Rightarrow> string \<Rightarrow> error + jsval" where
  "get_prop v k = (if has_props v then Inr (property v k) else Inl TypeError)"

text \<open>
  ToString, as a template literal and the DOM apply it to a value. An object is
  converted by its \<open>toString\<close> method: the one of \<open>Object.prototype\<close> gives
  \<open>[object Object]\<close>; an object with a property \<open>toString\<close> of its own, which holds
  data and cannot be called, has no conversion, and a TypeError is thrown.
\<close>

fun digits :: "nat \<Rightarrow> jsstring" where
  "digits n = (if n < 10 then [of_nat (48 + n)] else digits (n div 10) @ [of_nat (48 + n mod 10)])"

fun to_string :: "jsval \<Rightarrow> error + jsstring" where
  "to_string JUndefined = Inr (ustr ''undefined'')"
| "to_string JNull = Inr (ustr ''null'')"
| "to_string (JBool b) = Inr (if b then ustr ''true'' else ustr ''false'')"
| "to_string (JNum negative m) =
     Inr ((if negative \<and> m \<noteq> 0 then ustr ''-'' else []) @ digits (unat m))"
| "to_string JNaN = Inr (ustr ''NaN'')"
| "to_string (JStr s) = Inr s"
| "to_string (JObj kvs) =
     (if map_of kvs ''toString'' = None then Inr (ustr ''[object Object]'') else Inl TypeError)"

text \<open>
  \<open>String.prototype.trim\<close> strips the white space and line terminator code units of
  ECMAScript from both ends.
\<close>

definition white_space :: "jschar list" where
  "white_space =
     [0x0009, 0x000A, 0x000B, 0x000C, 0x000D, 0x0020, 0x00A0, 0x1680,
      0x2000, 0x2001, 0x2002, 0x2003, 0x2004, 0x2005, 0x2006, 0x2007,
      0x2008, 0x2009, 0x200A, 0x2028, 0x2029, 0x202F, 0x205F, 0x3000, 0xFEFF]"

definition is_white_space :: "jschar \<Rightarrow> bool" where
  "is_white_space c = (c \<in> set white_space)"

definition trim :: "jsstring \<Rightarrow> jsstring" where
  "trim s = rev (dropWhile is_white_space (rev (dropWhile is_white_space s)))"

text \<open>
  The method call \<open>v.trim()\<close>: only a string has the method; on \<open>undefined\<close> and
  \<open>null\<close> the property read throws, on any other value the call of \<open>undefined\<close>
  does. Both are TypeErrors.
\<close>

fun trim_call :: "jsval \<Rightarrow> error + jsstring" where
  "trim_call (JStr s) = Inr (trim s)"
| "trim_call v = Inl TypeError"

section \<open>Validation\<close>

text \<open>\<^verbatim>\<open>validate(savedData) { return savedData.text.trim() !== ''; }\<close>\<close>

definition validate :: "jsval \<Rightarrow> error + bool" where
  "validate savedData =
     (case get_prop savedData ''text'' of
        Inl e \<Rightarrow> Inl e
      | Inr t \<Rightarrow> (case trim_call t of Inl e \<Rightarrow> Inl e | Inr r \<Rightarrow> Inr (r \<noteq> [])))"

section \<open>The block, its DOM nodes and the host\<close>

text \<open>
  The inline background of the image region, by the declaration that was assigned to
  \<open>style.background\<close> and accepted:
  \<^item> \<open>BgNone\<close> is \<^verbatim>\<open>none\<close> (\<open>addLoader\<close>);
  \<^item> \<open>BgPlaceholder\<close> is
    \<^verbatim>\<open>#f6f6f9 url('data:image/svg+xml,${PlaceholderImage}') center center no-repeat\<close>
    (\<open>setImagePlaceholder\<close>);
  \<^item> \<open>BgImage u\<close> is \<^verbatim>\<open>url('${url}') center center / contain no-repeat\<close>
    (\<open>setImage\<close>), where \<open>u\<close> is the string the value \<open>url\<close> is converted to. It is
    put between the quotes as it is, so whether the result is a well-formed declaration
    depends on \<open>u\<close>: the browser drops a declaration it cannot parse, and the style
    stays what it was.
\<close>

datatype background = BgNone | BgPlaceholder | BgImage jsstring

text \<open>
  What the browser does with the strings the block hands to it:
  \<^item> \<open>text_of_html h\<close> is the \<open>textContent\<close> of an element whose \<open>innerHTML\<close> was set
    to \<open>h\<close>, and \<open>html_of_html h\<close> the \<open>innerHTML\<close> it then reads back (the markup is
    parsed and written out again);
  \<^item> \<open>html_of_text t\<close> is the \<open>innerHTML\<close> of an element whose \<open>textContent\<close> was set
    to \<open>t\<close>;
  \<^item> \<open>accepts_url u\<close> says whether it accepts the declaration
    \<^verbatim>\<open>url('u') center center / contain no-repeat\<close> as a background.
  What holds in every browser is written into the definitions below: an element set to
  the empty string is empty, and \<open>textContent\<close> reads back the text that was set.
\<close>

record browser =
  text_of_html :: "jsstring \<Rightarrow> jsstring"
  html_of_html :: "jsstring \<Rightarrow> jsstring"
  html_of_text :: "jsstring \<Rightarrow> jsstring"
  accepts_url :: "jsstring \<Rightarrow> bool"

text \<open>
  An element, with the properties the block reads or writes. \<open>style = None\<close> is an
  element without inline style. \<open>innerHTML\<close> and \<open>textContent\<close> are both kept:
  the browser derives one from the other, and the block only ever sees the results.
\<close>

record element =
  tagName :: string
  classList :: "jsstring list"
  style :: "background option"
  contentEditable :: bool
  innerHTML :: jsstring
  textContent :: jsstring
  placeholder :: "jsstring option"

text \<open>\<open>this.nodes\<close>; \<open>None\<close> is \<open>null\<close>.\<close>

record nodes =
  wrapper_node :: "element option"
  text_node :: "element option"
  image_node :: "element option"
  title_node :: "element option"
  description_node :: "element option"

text \<open>\<open>this.config\<close>\<close>

record config =
  endpoint :: jsval
  field :: jsval
  types :: jsval
  additionalRequestData :: jsval
  additionalRequestHeaders :: jsval
  textPlaceholder :: jsval
  titlePlaceholder :: jsval
  descriptionPlaceholder :: jsval

text \<open>\<open>api.styles\<close> of the host: the class names it hands to its tools.\<close>

record api_styles =
  block :: jsstring
  input :: jsstring
  loader :: jsstring

text \<open>The callbacks handed to \<open>setTimeout\<close> by \<open>showFullImage\<close> and \<open>stopLoading\<close>.\<close>

datatype timer_task = ShowFullImageTask | StopLoadingTask

text \<open>
  The elements \<open>render\<close> creates, and the listeners it registers: the method
  \<open>this.onKeyUp\<close> itself for \<open>keyup\<close> on the text region, and two arrow functions
  for \<open>click\<close> on the delete button and on the image region.
\<close>

datatype node_name =
    Wrapper | TextRegion | ImageRegion | TitleRegion | DescriptionRegion
  | DeleteImageButton | FieldsWrapper | CardWrapper

datatype event = Click | KeyUp jsstring

datatype listener = OnKeyUpMethod | DeleteImageArrow | SelectFileArrow

type_synonym addr = nat

text \<open>
  The block instance together with what it touches of its surroundings: the heap
  object \<open>this.data\<close> refers to (the host passes a reference to an object, an empty
  one for a new block), the calls
  made to \<open>api.notifier.show\<close> (message and style) and \<open>api.tooltip.onHover\<close>, the
  pending timers with their due times, the registered listeners, and the number of
  calls to \<open>uploader.uploadSelectedFile\<close>. The uploader is not part of the sources:
  its callbacks \<open>onPreview\<close>, \<open>onUpload\<close> and \<open>onError\<close> are entry points of
  the block.
\<close>

record state =
  styles :: api_styles
  nodes :: nodes
  config :: config
  data :: addr
  heap :: "addr \<Rightarrow> jsobject"
  notifier_log :: "(jsval \<times> jsstring) list"
  tooltip_log :: "(node_name \<times> jsstring) list"
  listeners :: "(node_name \<times> listener) list"
  clock :: nat
  timers :: "(nat \<times> timer_task) list"
  upload_prompts :: nat

definition LOADER_DELAY :: nat where
  "LOADER_DELAY = 500"

text \<open>Reading and writing \<open>this.data\<close>.\<close>

definition this_data :: "state \<Rightarrow> jsval" where
  "this_data s = JObj (heap s (data s))"

definition set_data :: "string \<Rightarrow> jsval \<Rightarrow> state \<Rightarrow> state" where
  "set_data k v s = s\<lparr>heap := (heap s)(data s := AList.update k v (heap s (data s)))\<rparr>"

subsection \<open>Construction\<close>

text \<open>
  \<open>constructor({ data, config, api })\<close>: \<open>data\<close> is the reference the host passes,
  \<open>h\<close> the heap at that moment. Every default is \<open>config.x || default\<close>.
\<close>

definition constructor :: "addr \<Rightarrow> jsval \<Rightarrow> api_styles \<Rightarrow> (addr \<Rightarrow> jsobject) \<Rightarrow> error + state" where
  "constructor d cfg api h =
     (if \<not> has_props cfg then Inl TypeError
      else Inr \<lparr>
        styles = api,
        nodes = \<lparr>wrapper_node = None, text_node = None, image_node = None,
                  title_node = None, description_node = None\<rparr>,
        config = \<lparr>
          endpoint = or_js (property cfg ''endpoint'') (JStr []),
          field = or_js (property cfg ''field'') (JStr (ustr ''image'')),
          types = or_js (property cfg ''types'') (JStr (ustr ''image/*'')),
          additionalRequestData = or_js (property cfg ''additionalRequestData'') (JObj []),
          additionalRequestHeaders = or_js (property cfg ''additionalRequestHeaders'') (JObj []),
          textPlaceholder = or_js (property cfg ''textPlaceholder'') (JStr (ustr ''Text'')),
          titlePlaceholder = or_js (property cfg ''titlePlaceholder'') (JStr (ustr ''Title'')),
          descriptionPlaceholder =
            or_js (property cfg ''descriptionPlaceholder'') (JStr (ustr ''Description''))\<rparr>,
        data = d,
        heap = h,
        notifier_log = [],
        tooltip_log = [],
        listeners = [],
        clock = 0,
        timers = [],
        upload_prompts = 0\<rparr>)"

subsection \<open>Class lists\<close>

text \<open>
  \<open>classList.add\<close> and \<open>classList.remove\<close> first check every token they are given, in
  order: the empty string is a SyntaxError, a token with ASCII white space an
  InvalidCharacterError. Only then do they change the list.
\<close>

definition ascii_white_space :: "jschar list" where
  "ascii_white_space = [0x09, 0x0A, 0x0C, 0x0D, 0x20]"

definition token_error :: "jsstring \<Rightarrow> error option" where
  "token_error t =
     (if t = [] then Some SyntaxError
      else if list_ex (\<lambda>c. c \<in> set ascii_white_space) t then Some InvalidCharacterError
      else None)"

fun tokens_error :: "jsstring list \<Rightarrow> error option" where
  "tokens_error [] = None"
| "tokens_error (t # ts) = (case token_error t of Some e \<Rightarrow> Some e | None \<Rightarrow> tokens_error ts)"

definition classList_add :: "jsstring list \<Rightarrow> element \<Rightarrow> error + element" where
  "classList_add ts el =
     (case tokens_error ts of
        Some e \<Rightarrow> Inl e
      | None \<Rightarrow>
          Inr (el\<lparr>classList :=
                 foldl (\<lambda>cs t. if t \<in> set cs then cs else cs @ [t]) (classList el) ts\<rparr>))"

definition classList_remove :: "jsstring \<Rightarrow> element \<Rightarrow> error + element" where
  "classList_remove t el =
     (case token_error t of
        Some e \<Rightarrow> Inl e
      | None \<Rightarrow> Inr (el\<lparr>classList := filter (\<lambda>x. x \<noteq> t) (classList el)\<rparr>))"

subsection \<open>The image region\<close>

text \<open>\<open>this.CSS.loader\<close> is \<open>this.api.styles.loader\<close>.\<close>

definition CSS_loader :: "state \<Rightarrow> jsstring" where
  "CSS_loader s = loader (styles s)"

text \<open>
  An update of \<open>this.nodes.image\<close>; the property read on \<open>null\<close> (before \<open>render\<close>)
  throws.
\<close>

definition with_image :: "(element \<Rightarrow> error + element) \<Rightarrow> state \<Rightarrow> error + state" where
  "with_image f s =
     (case image_node (nodes s) of
        None \<Rightarrow> Inl TypeError
      | Some el \<Rightarrow>
          (case f el of
             Inl e \<Rightarrow> Inl e
           | Inr el' \<Rightarrow> Inr (s\<lparr>nodes := (nodes s)\<lparr>image_node := Some el'\<rparr>\<rparr>)))"

text \<open>
  \<^verbatim>\<open>setImage(url) {
    this.nodes.image.style.background = `url('${url}') center center / contain no-repeat`;
  }\<close>
\<close>

definition setImage :: "browser \<Rightarrow> jsval \<Rightarrow> state \<Rightarrow> error + state" where
  "setImage b url s =
     with_image
       (\<lambda>el. case to_string url of
                Inl e \<Rightarrow> Inl e
              | Inr u \<Rightarrow> Inr (if accepts_url b u then el\<lparr>style := Some (BgImage u)\<rparr> else el))
       s"

text \<open>
  Modelled from the spec: the SVG asset \<open>PlaceholderImage\<close>, which is not among the
  sources. By the spec the empty image region shows a placeholder graphic; so the asset
  is taken to be one with which the declaration of \<open>setImagePlaceholder\<close> is well
  formed, and the browser accepts it.
\<close>

definition placeholder_accepted :: bool where
  "placeholder_accepted = True"

text \<open>
  \<^verbatim>\<open>setImagePlaceholder() {
    this.nodes.image.style.background =
      `#f6f6f9 url('data:image/svg+xml,${PlaceholderImage}') center center no-repeat`;
  }\<close>
\<close>

definition setImagePlaceholder :: "state \<Rightarrow> error + state" where
  "setImagePlaceholder s =
     with_image
       (\<lambda>el. Inr (if placeholder_accepted then el\<lparr>style := Some BgPlaceholder\<rparr> else el)) s"

text \<open>
  Results of the entry points and callbacks that can throw after they have changed
  something: the exception, if any, with the state they leave.
  \<^verbatim>\<open>addLoader() {
    this.nodes.image.style.background = 'none';
    this.nodes.image.classList.add(this.CSS.loader);
  }\<close>
\<close>

definition addLoader :: "state \<Rightarrow> error option \<times> state" where
  "addLoader s =
     (case with_image (\<lambda>el. Inr (el\<lparr>style := Some BgNone\<rparr>)) s of
        Inl e \<Rightarrow> (Some e, s)
      | Inr s1 \<Rightarrow>
          (case with_image (classList_add [CSS_loader s]) s1 of
             Inl e \<Rightarrow> (Some e, s1)
           | Inr s2 \<Rightarrow> (None, s2)))"

subsection \<open>Timers\<close>

definition setTimeout :: "timer_task \<Rightarrow> nat \<Rightarrow> state \<Rightarrow> state" where
  "setTimeout task delay s = s\<lparr>timers := timers s @ [(clock s + delay, task)]\<rparr>"

definition showFullImage :: "state \<Rightarrow> state" where
  "showFullImage s = setTimeout ShowFullImageTask LOADER_DELAY s"

definition stopLoading :: "state \<Rightarrow> state" where
  "stopLoading s = setTimeout StopLoadingTask LOADER_DELAY s"

text \<open>
  The bodies of the two timer callbacks:
  \<^verbatim>\<open>this.nodes.image.classList.remove(this.CSS.loader); this.setImage(this.data.image.url);\<close>
  and
  \<^verbatim>\<open>this.nodes.image.classList.remove(this.CSS.loader); this.nodes.image.removeAttribute('style');\<close>
  A callback runs as a task of its own: an exception it throws is reported as uncaught
  and what it did before stays done.
\<close>

fun run_task :: "browser \<Rightarrow> timer_task \<Rightarrow> state \<Rightarrow> error option \<times> state" where
  "run_task b ShowFullImageTask s =
     (case with_image (classList_remove (CSS_loader s)) s of
        Inl e \<Rightarrow> (Some e, s)
      | Inr s1 \<Rightarrow>
          (case get_prop (property (this_data s1) ''image'') ''url'' of
             Inl e \<Rightarrow> (Some e, s1)
           | Inr url \<Rightarrow>
               (case setImage b url s1 of Inl e \<Rightarrow> (Some e, s1) | Inr s2 \<Rightarrow> (None, s2))))"
| "run_task b StopLoadingTask s =
     (case with_image (classList_remove (CSS_loader s)) s of
        Inl e \<Rightarrow> (Some e, s)
      | Inr s1 \<Rightarrow>
          (case with_image (\<lambda>el. Inr (el\<lparr>style := None\<rparr>)) s1 of
             Inl e \<Rightarrow> (Some e, s1)
           | Inr s2 \<Rightarrow> (None, s2)))"

fun uncaught :: "error option \<Rightarrow> error list" where
  "uncaught None = []"
| "uncaught (Some e) = [e]"

fun run_tasks :: "browser \<Rightarrow> timer_task list \<Rightarrow> state \<Rightarrow> error list \<times> state" where
  "run_tasks b [] s = ([], s)"
| "run_tasks b (t # ts) s =
     (case run_task b t s of
        (e, s1) \<Rightarrow> (case run_tasks b ts s1 of (es, s2) \<Rightarrow> (uncaught e @ es, s2)))"

text \<open>
  Time passes: the clock advances by \<open>d\<close> milliseconds and the timers that are due run,
  in the order of their due times (timers due together run in the order they were
  set). No callback sets a timer or reads the clock. The result lists the uncaught
  exceptions of the callbacks.
\<close>

definition elapse :: "browser \<Rightarrow> nat \<Rightarrow> state \<Rightarrow> error list \<times> state" where
  "elapse b d s =
     (let now = clock s + d;
          due = sort_key fst (filter (\<lambda>t. fst t \<le> now) (timers s));
          pending = filter (\<lambda>t. \<not> fst t \<le> now) (timers s)
      in run_tasks b (map snd due) (s\<lparr>clock := now, timers := pending\<rparr>))"

subsection \<open>Upload callbacks\<close>

text \<open>
  \<^verbatim>\<open>onUpload(response) {
    const { body: { success, file } } = response;
    if (success && file && file.url) { this.data.image = file; this.showFullImage(); }
  }\<close>
\<close>

definition onUpload :: "jsval \<Rightarrow> state \<Rightarrow> error + state" where
  "onUpload response s =
     (case get_prop response ''body'' of
        Inl e \<Rightarrow> Inl e
      | Inr body \<Rightarrow>
          if \<not> has_props body then Inl TypeError
          else
            let success = property body ''success''; file = property body ''file'' in
            if truthy success \<and> truthy file \<and> truthy (property file ''url'')
            then Inr (showFullImage (set_data ''image'' file s))
            else Inr s)"

text \<open>
  \<^verbatim>\<open>uploadingFailed(errorMessage) {
    this.stopLoading();
    this.api.notifier.show({ message: errorMessage, style: 'error' });
  }\<close>
\<close>

definition uploadingFailed :: "jsval \<Rightarrow> state \<Rightarrow> state" where
  "uploadingFailed errorMessage s =
     (let s1 = stopLoading s
      in s1\<lparr>notifier_log := notifier_log s1 @ [(errorMessage, ustr ''error'')]\<rparr>)"

subsection \<open>Saving\<close>

text \<open>
  \<^verbatim>\<open>save(toolsContent) {
    const text = (this.nodes.text.innerHTML || '').trim();
    const title = (this.nodes.title.textContent || '').trim();
    const description = (this.nodes.description.textContent || '').trim();
    Object.assign(this.data, { text, title, description });
    return this.data;
  }\<close>
  The result is the reference held in \<open>this.data\<close>, with the updated state.
\<close>

definition save :: "state \<Rightarrow> error + (addr \<times> state)" where
  "save s =
     (case text_node (nodes s) of
        None \<Rightarrow> Inl TypeError
      | Some text_el \<Rightarrow>
     (case trim_call (or_js (JStr (innerHTML text_el)) (JStr [])) of
        Inl e \<Rightarrow> Inl e
      | Inr text \<Rightarrow>
     (case title_node (nodes s) of
        None \<Rightarrow> Inl TypeError
      | Some title_el \<Rightarrow>
     (case trim_call (or_js (JStr (textContent title_el)) (JStr [])) of
        Inl e \<Rightarrow> Inl e
      | Inr title \<Rightarrow>
     (case description_node (nodes s) of
        None \<Rightarrow> Inl TypeError
      | Some description_el \<Rightarrow>
     (case trim_call (or_js (JStr (textContent description_el)) (JStr [])) of
        Inl e \<Rightarrow> Inl e
      | Inr description \<Rightarrow>
          Inr (data s,
               set_data ''description'' (JStr description)
                 (set_data ''title'' (JStr title)
                   (set_data ''text'' (JStr text) s)))))))))"

subsection \<open>Key releases in the text region\<close>

text \<open>
  What \<open>this\<close> is when \<open>onKeyUp\<close> runs: the block, or the element a listener was
  registered on. An element has no property \<open>nodes\<close>, so there \<open>this.nodes.text\<close>
  reads a property of \<open>undefined\<close>.
  \<^verbatim>\<open>onKeyUp(e) {
    if (e.code !== 'Backspace' && e.code !== 'Delete') { return; }
    const { textContent } = this.nodes.text;
    if (textContent === '') { this.nodes.text.innerHTML = ''; }
  }\<close>
\<close>

datatype receiver = ThisBlock | ThisElement node_name

fun code :: "event \<Rightarrow> jsval" where
  "code Click = JUndefined"
| "code (KeyUp c) = JStr c"

definition onKeyUp :: "receiver \<Rightarrow> event \<Rightarrow> state \<Rightarrow> error + state" where
  "onKeyUp this e s =
     (if code e \<noteq> JStr (ustr ''Backspace'') \<and> code e \<noteq> JStr (ustr ''Delete'') then Inr s
      else
        (case this of
           ThisElement n \<Rightarrow> Inl TypeError
         | ThisBlock \<Rightarrow>
             (case text_node (nodes s) of
                None \<Rightarrow> Inl TypeError
              | Some el \<Rightarrow>
                  if textContent el = []
                  then Inr (s\<lparr>nodes := (nodes s)\<lparr>text_node := Some (el\<lparr>innerHTML := []\<rparr>)\<rparr>\<rparr>)
                  else Inr s)))"

subsection \<open>Rendering\<close>

text \<open>
  \<open>make(tagName, classNames)\<close>: \<open>classNames\<close> is an array of class names, which are
  added in one call, or one class name, which is added when it is truthy. The
  attributes are set by the caller.
\<close>

datatype class_names = ClassArray "jsstring list" | ClassName jsstring

definition createElement :: "string \<Rightarrow> element" where
  "createElement tag =
     \<lparr>tagName = tag, classList = [], style = None, contentEditable = False,
      innerHTML = [], textContent = [], placeholder = None\<rparr>"

definition make :: "string \<Rightarrow> class_names \<Rightarrow> error + element" where
  "make tag classNames =
     (case classNames of
        ClassArray cs \<Rightarrow> classList_add cs (createElement tag)
      | ClassName c \<Rightarrow>
          if c \<noteq> [] then classList_add [c] (createElement tag) else Inr (createElement tag))"

text \<open>
  Assignments to \<open>innerHTML\<close>, \<open>textContent\<close> and \<open>dataset.placeholder\<close>: the value is
  converted to a string first.
\<close>

definition set_innerHTML :: "browser \<Rightarrow> jsval \<Rightarrow> element \<Rightarrow> error + element" where
  "set_innerHTML b v el =
     (case to_string v of
        Inl e \<Rightarrow> Inl e
      | Inr h \<Rightarrow>
          Inr (if h = [] then el\<lparr>innerHTML := [], textContent := []\<rparr>
               else el\<lparr>innerHTML := html_of_html b h, textContent := text_of_html b h\<rparr>))"

definition set_textContent :: "browser \<Rightarrow> jsval \<Rightarrow> element \<Rightarrow> error + element" where
  "set_textContent b v el =
     (case to_string v of
        Inl e \<Rightarrow> Inl e
      | Inr t \<Rightarrow>
          Inr (if t = [] then el\<lparr>innerHTML := [], textContent := []\<rparr>
               else el\<lparr>innerHTML := html_of_text b t, textContent := t\<rparr>))"

definition set_placeholder :: "jsval \<Rightarrow> element \<Rightarrow> error + element" where
  "set_placeholder v el =
     (case to_string v of Inl e \<Rightarrow> Inl e | Inr p \<Rightarrow> Inr (el\<lparr>placeholder := Some p\<rparr>))"

text \<open>
  The listeners \<open>render\<close> registers with \<open>addEventListener\<close>: \<open>keyup\<close> on the text
  region, \<open>click\<close> on the delete button and on the image region.
\<close>

definition render_listeners :: "(node_name \<times> listener) list" where
  "render_listeners =
     [(TextRegion, OnKeyUpMethod), (DeleteImageButton, DeleteImageArrow),
      (ImageRegion, SelectFileArrow)]"

text \<open>
  \<open>render()\<close>. The elements kept in \<open>this.nodes\<close> are built as the source builds
  them, statement by statement, and each statement that can throw is a case. Of the
  delete button, the card and the fields wrapper, whose class names are constants of the
  block, the model keeps the tooltip call, the listeners and their place in the tree
  (\<open>path\<close> below). The elements are new, so they carry the listeners of this call only.
  When \<open>render\<close> throws, the host gets no element; the result is then the exception
  alone.
\<close>

definition render :: "browser \<Rightarrow> state \<Rightarrow> error + state" where
  "render b s =
     (let d = this_data s;
          text = property d ''text'';
          image = property d ''image'';
          title = property d ''title'';
          description = property d ''description''
      in
     (case make ''div'' (ClassArray [block (styles s), ustr ''cdx-paragraph-image'']) of
        Inl e \<Rightarrow> Inl e
      | Inr wrapper_el \<Rightarrow>
     (case make ''div'' (ClassArray [input (styles s), ustr ''cdx-paragraph-image__text'']) of
        Inl e \<Rightarrow> Inl e
      | Inr text_el0 \<Rightarrow>
     (case set_innerHTML b (or_js text (JStr [])) (text_el0\<lparr>contentEditable := True\<rparr>) of
        Inl e \<Rightarrow> Inl e
      | Inr text_el1 \<Rightarrow>
     (case set_placeholder (textPlaceholder (config s)) text_el1 of
        Inl e \<Rightarrow> Inl e
      | Inr text_el \<Rightarrow>
     (case make ''div'' (ClassName (ustr ''cdx-paragraph-image__title'')) of
        Inl e \<Rightarrow> Inl e
      | Inr title_el0 \<Rightarrow>
     (case set_placeholder (titlePlaceholder (config s)) (title_el0\<lparr>contentEditable := True\<rparr>) of
        Inl e \<Rightarrow> Inl e
      | Inr title_el1 \<Rightarrow>
     (case (if truthy title then set_textContent b title title_el1 else Inr title_el1) of
        Inl e \<Rightarrow> Inl e
      | Inr title_el \<Rightarrow>
     (case make ''div'' (ClassName (ustr ''cdx-paragraph-image__description'')) of
        Inl e \<Rightarrow> Inl e
      | Inr description_el0 \<Rightarrow>
     (case set_placeholder (descriptionPlaceholder (config s))
             (description_el0\<lparr>contentEditable := True\<rparr>) of
        Inl e \<Rightarrow> Inl e
      | Inr description_el1 \<Rightarrow>
     (case (if truthy description then set_textContent b description description_el1
            else Inr description_el1) of
        Inl e \<Rightarrow> Inl e
      | Inr description_el \<Rightarrow>
     (case make ''div'' (ClassName (ustr ''cdx-paragraph-image__image'')) of
        Inl e \<Rightarrow> Inl e
      | Inr image_el \<Rightarrow>
          (let s1 = s\<lparr>
                 nodes := \<lparr>wrapper_node = Some wrapper_el, text_node = Some text_el,
                            image_node = Some image_el, title_node = Some title_el,
                            description_node = Some description_el\<rparr>,
                 tooltip_log := tooltip_log s @ [(DeleteImageButton, ustr ''Delete'')],
                 listeners := render_listeners\<rparr>
           in if truthy image then setImage b (property image ''url'') s1
              else setImagePlaceholder s1)))))))))))))"

subsection \<open>Events\<close>

text \<open>
  The event each listener was registered for.
\<close>

fun listens_to :: "listener \<Rightarrow> event \<Rightarrow> bool" where
  "listens_to OnKeyUpMethod (KeyUp c) = True"
| "listens_to DeleteImageArrow Click = True"
| "listens_to SelectFileArrow Click = True"
| "listens_to l e = False"

text \<open>
  A listener runs and says whether it stopped the propagation of the event. An
  exception it throws is reported as uncaught; the event goes on to the other
  listeners.
  \<^item> \<open>this.onKeyUp\<close> was registered as a plain function, so it runs with \<open>this\<close> the
    element it was registered on. It throws, if at all, before it writes anything.
  \<^item> The delete button's arrow function:
    \<^verbatim>\<open>e.preventDefault(); e.stopPropagation(); this.setImagePlaceholder(); this.data.image = null;\<close>
  \<^item> The image region's arrow function calls \<open>this.uploader.uploadSelectedFile\<close>.
\<close>

fun run_listener :: "listener \<Rightarrow> node_name \<Rightarrow> event \<Rightarrow> state \<Rightarrow> error option \<times> bool \<times> state" where
  "run_listener OnKeyUpMethod n e s =
     (case onKeyUp (ThisElement n) e s of
        Inl x \<Rightarrow> (Some x, False, s)
      | Inr s1 \<Rightarrow> (None, False, s1))"
| "run_listener DeleteImageArrow n e s =
     (case setImagePlaceholder s of
        Inl x \<Rightarrow> (Some x, True, s)
      | Inr s1 \<Rightarrow> (None, True, set_data ''image'' JNull s1))"
| "run_listener SelectFileArrow n e s =
     (None, False, s\<lparr>upload_prompts := upload_prompts s + 1\<rparr>)"

fun run_listeners :: "listener list \<Rightarrow> node_name \<Rightarrow> event \<Rightarrow> state \<Rightarrow> error list \<times> bool \<times> state" where
  "run_listeners [] n e s = ([], False, s)"
| "run_listeners (l # ls) n e s =
     (case run_listener l n e s of
        (x, stopped, s1) \<Rightarrow>
          (case run_listeners ls n e s1 of
             (xs, stopped', s2) \<Rightarrow> (uncaught x @ xs, stopped \<or> stopped', s2)))"

definition listeners_on :: "node_name \<Rightarrow> event \<Rightarrow> state \<Rightarrow> listener list" where
  "listeners_on n e s = map snd (filter (\<lambda>(m, l). m = n \<and> listens_to l e) (listeners s))"

text \<open>
  The way of an event from its target up through the block's tree, as the
  \<open>appendChild\<close> calls of \<open>render\<close> build it.
\<close>

fun path :: "node_name \<Rightarrow> node_name list" where
  "path Wrapper = [Wrapper]"
| "path TextRegion = [TextRegion, Wrapper]"
| "path CardWrapper = [CardWrapper, Wrapper]"
| "path ImageRegion = [ImageRegion, CardWrapper, Wrapper]"
| "path FieldsWrapper = [FieldsWrapper, CardWrapper, Wrapper]"
| "path TitleRegion = [TitleRegion, FieldsWrapper, CardWrapper, Wrapper]"
| "path DescriptionRegion = [DescriptionRegion, FieldsWrapper, CardWrapper, Wrapper]"
| "path DeleteImageButton = [DeleteImageButton, ImageRegion, CardWrapper, Wrapper]"

fun bubble :: "node_name list \<Rightarrow> event \<Rightarrow> state \<Rightarrow> error list \<times> state" where
  "bubble [] e s = ([], s)"
| "bubble (n # ns) e s =
     (case run_listeners (listeners_on n e s) n e s of
        (xs, stopped, s1) \<Rightarrow>
          if stopped then (xs, s1)
          else (case bubble ns e s1 of (ys, s2) \<Rightarrow> (xs @ ys, s2)))"

definition dispatch :: "node_name \<Rightarrow> event \<Rightarrow> state \<Rightarrow> error list \<times> state" where
  "dispatch target e s = bubble (path target) e s"

subsection \<open>What the image region shows\<close>

text \<open>
  Names for the appearance of the image region, read off its element (the source has no
  such type): the region is loading while it carries the loader class, or has the
  background \<open>none\<close> that only \<open>addLoader\<close> sets; otherwise it is loaded when its
  background is an image, and empty when it has the placeholder background or no inline
  style at all.
\<close>

datatype visual_state = Empty | Loading | Loaded

definition visual_state_of :: "jsstring \<Rightarrow> element \<Rightarrow> visual_state" where
  "visual_state_of loader_class el =
     (if loader_class \<in> set (classList el) then Loading
      else (case style el of
              None \<Rightarrow> Empty
            | Some BgPlaceholder \<Rightarrow> Empty
            | Some BgNone \<Rightarrow> Loading
            | Some (BgImage v) \<Rightarrow> Loaded))"

definition visual_state :: "state \<Rightarrow> visual_state option" where
  "visual_state s = map_option (visual_state_of (CSS_loader s)) (image_node (nodes s))"

section \<open>A block of the example page\<close>

text \<open>
  The example page configures the block with
  \<^verbatim>\<open>config: { endpoint: 'http://localhost:8008/uploadFile', placeholder: '' }\<close>
  and starts the editor with no saved data. The host's class names are those of
  Editor.js. The browser of the examples leaves markup and text as they are, which
  is what a browser does with the strings of the examples (they hold no \<open>&\<close>, and
  \<open><\<close> and \<open>>\<close> only in well-formed tags). It accepts the background of an
  image whose url holds no apostrophe, backslash or line break, and no other; the
  urls of the examples are \<open>https://x/y.png\<close> and \<open>undefined\<close>, whose
  declarations are well formed, and \<open>a'b\<close>, whose declaration is not: there the
  apostrophe ends the quoted string early.
\<close>

definition example_config :: jsval where
  "example_config =
     JObj [(''endpoint'', JStr (ustr ''http://localhost:8008/uploadFile'')),
           (''placeholder'', JStr [])]"

definition example_styles :: api_styles where
  "example_styles = \<lparr>block = ustr ''cdx-block'', input = ustr ''cdx-input'', loader = ustr ''cdx-loader''\<rparr>"

definition plain_url :: "jsstring \<Rightarrow> bool" where
  "plain_url u = (\<not> list_ex (\<lambda>c. c \<in> set [0x27, 0x5C, 0x0A, 0x0C, 0x0D]) u)"

definition example_browser :: browser where
  "example_browser =
     \<lparr>text_of_html = (\<lambda>h. h), html_of_html = (\<lambda>h. h), html_of_text = (\<lambda>t. t),
      accepts_url = plain_url\<rparr>"

definition empty_heap :: "addr \<Rightarrow> jsobject" where
  "empty_heap = (\<lambda>a. [])"

definition new_block :: state where
  "new_block = projr (constructor 0 example_config example_styles empty_heap)"

definition rendered_block :: state where
  "rendered_block = projr (render example_browser new_block)"

definition loading_block :: state where
  "loading_block = snd (addLoader rendered_block)"

definition example_image_el :: element where
  "example_image_el =
     \<lparr>tagName = ''div'', classList = [ustr ''cdx-paragraph-image__image''], style = None,
      contentEditable = False, innerHTML = [], textContent = [], placeholder = None\<rparr>"

text \<open>A response that reports a successful upload.\<close>

definition example_response :: jsval where
  "example_response =
     JObj [(''body'', JObj [(''success'', JNum False 1),
                            (''file'', JObj [(''url'', JStr (ustr ''https://x/y.png''))])])]"

text \<open>Two responses that report a failed upload: \<open>success\<close> 0, and a file without \<open>url\<close>.\<close>

definition rejected_response :: jsval where
  "rejected_response = JObj [(''body'', JObj [(''success'', JNum False 0)])]"

definition malformed_response :: jsval where
  "malformed_response = JObj [(''body'', JObj [(''success'', JNum False 1), (''file'', JObj [])])]"

text \<open>
  The example block when the upload has succeeded and the delay has not passed yet, and
  once it has passed.
\<close>

definition uploaded_block :: state where
  "uploaded_block = projr (onUpload example_response loading_block)"

definition loaded_block :: state where
  "loaded_block = snd (elapse example_browser LOADER_DELAY uploaded_block)"

text \<open>
  The example block when the user has clicked the delete button after the upload has
  succeeded and before the delay has passed.
\<close>

definition interrupted_block :: state where
  "interrupted_block = snd (dispatch DeleteImageButton Click uploaded_block)"

text \<open>
  A successful upload whose url holds an apostrophe, \<open>a'b\<close>, and the example block
  once the delay has passed after it.
\<close>

definition quoted_url :: jsstring where
  "quoted_url = [0x61, 0x27, 0x62]"




text \<open>
  The example block after the user has typed into the text and title regions and left
  the description empty.
\<close>

definition edited_block :: state where
  "edited_block =
     rendered_block\<lparr>nodes := (nodes rendered_block)\<lparr>
       text_node :=
         map_option (\<lambda>el. el\<lparr>innerHTML := ustr '' Hello <b>world</b>'',
                               textContent := ustr '' Hello world''\<rparr>)
           (text_node (nodes rendered_block)),
       title_node :=
         map_option (\<lambda>el. el\<lparr>innerHTML := ustr ''A title '', textContent := ustr ''A title ''\<rparr>)
           (title_node (nodes rendered_block))\<rparr>\<rparr>"

text \<open>
  The example block after the user has deleted all text in a browser that leaves a line
  break behind in the empty region.
\<close>

definition line_break_block :: state where
  "line_break_block =
     rendered_block\<lparr>nodes := (nodes rendered_block)\<lparr>
       text_node :=
         map_option (\<lambda>el. el\<lparr>innerHTML := ustr ''<br>'', textContent := []\<rparr>)
           (text_node (nodes rendered_block))\<rparr>\<rparr>"

definition saved_line_break_block :: state where
  "saved_line_break_block = snd (projr (save line_break_block))"

text \<open>A block restored from saved data whose image record has no \<open>url\<close>.\<close>

definition url_less_heap :: "addr \<Rightarrow> jsobject" where
  "url_less_heap = empty_heap(0 := [(''text'', JStr (ustr ''Hello'')), (''image'', JObj [])])"

definition restored_block :: state where
  "restored_block = projr (constructor 0 example_config example_styles url_less_heap)"

definition url_less_block :: state where
  "url_less_block = projr (render example_browser restored_block)"

text \<open>A block restored from saved data whose image record has the \<open>url\<close> \<open>a'b\<close>.\<close>

definition quoted_heap :: "addr \<Rightarrow> jsobject" where
  "quoted_heap =
     empty_heap(0 := [(''text'', JStr (ustr ''Hello'')),
                      (''image'', JObj [(''url'', JStr quoted_url)])])"

definition quoted_restored_block :: state where
  "quoted_restored_block = projr (constructor 0 example_config example_styles quoted_heap)"

section \<open>States that can be rendered\<close>

text \<open>
  The values \<open>render\<close> converts to strings have a conversion, and the two class names
  of the host that it uses are valid tokens.
\<close>

definition printable :: "jsval \<Rightarrow> bool" where
  "printable v = (\<not> isl (to_string v))"

definition renderable :: "state \<Rightarrow> bool" where
  "renderable s \<longleftrightarrow>
     token_error (block (styles s)) = None \<and>
     token_error (input (styles s)) = None \<and>
     printable (property (this_data s) ''text'') \<and>
     printable (property (this_data s) ''title'') \<and>
     printable (property (this_data s) ''description'') \<and>
     printable (property (property (this_data s) ''image'') ''url'') \<and>
     printable (textPlaceholder (config s)) \<and>
     printable (titlePlaceholder (config s)) \<and>
     printable (descriptionPlaceholder (config s))"

section \<open>Defaults of the configuration\<close>

text \<open>
  How a configuration field \<open>v\<close> relates to the object \<open>cfg\<close> it was built from: the
  default when the key is absent or its value falsy, the supplied value otherwise.
\<close>

definition supplied_or_default :: "jsobject \<Rightarrow> string \<Rightarrow> jsval \<Rightarrow> jsval \<Rightarrow> bool" where
  "supplied_or_default cfg k dflt v =
     ((map_of cfg k = None \<longrightarrow> v = dflt) \<and>
      (\<not> truthy (property (JObj cfg) k) \<longrightarrow> v = dflt) \<and>
      (truthy (property (JObj cfg) k) \<longrightarrow> v = property (JObj cfg) k))"

section \<open>States that differ in the image region\<close>

text \<open>
  A state that differs from another in the image region at most, where both have one.
\<close>

definition image_only :: "state \<Rightarrow> state \<Rightarrow> bool" where
  "image_only s s' \<longleftrightarrow>
     (\<exists>el. image_node (nodes s') = Some el \<and> s' = s\<lparr>nodes := (nodes s)\<lparr>image_node := Some el\<rparr>\<rparr>)"


section \<open>Basic facts\<close>

lemma trim_all_white_space:
  "trim s = [] \<longleftrightarrow> (\<forall>c \<in> set s. is_white_space c)"
proof
  assume "trim s = []"
  then have a: "\<forall>x \<in> set (dropWhile is_white_space s). is_white_space x"
    by (simp add: trim_def)
  have "dropWhile is_white_space s = []"
  proof (cases "dropWhile is_white_space s")
    case Nil
    then show ?thesis .
  next
    case (Cons y ys)
    then have "\<not> is_white_space y"
      by (metis hd_dropWhile list.sel(1) list.distinct(1))
    with a Cons show ?thesis by simp
  qed
  then show "\<forall>c \<in> set s. is_white_space c"
    by simp
next
  assume "\<forall>c \<in> set s. is_white_space c"
  then show "trim s = []"
    by (auto simp: trim_def dest: set_dropWhileD)
qed

lemma or_js_string: "or_js (JStr x) (JStr []) = JStr x"
  by (simp add: or_js_def)



lemma property_set_data:
  "property (this_data (set_data k v s)) k' = (if k' = k then v else property (this_data s) k')"
  by (simp add: this_data_def set_data_def update_conv')

lemma map_of_set_data:
  "map_of (heap (set_data k v s) (data (set_data k v s))) k' =
     (if k' = k then Some v else map_of (heap s (data s)) k')"
  by (simp add: set_data_def update_conv')

lemma set_data_fields:
  "data (set_data k v s) = data s" "nodes (set_data k v s) = nodes s"
  "styles (set_data k v s) = styles s" "config (set_data k v s) = config s"
  "timers (set_data k v s) = timers s" "clock (set_data k v s) = clock s"
  "notifier_log (set_data k v s) = notifier_log s" "tooltip_log (set_data k v s) = tooltip_log s"
  "listeners (set_data k v s) = listeners s" "upload_prompts (set_data k v s) = upload_prompts s"
  by (simp_all add: set_data_def)

lemma set_data_other_objects: "a \<noteq> data s \<Longrightarrow> heap (set_data k v s) a = heap s a"
  by (simp add: set_data_def)


subsection \<open>Conversions and class names\<close>

lemma printable_Inr: "printable v \<Longrightarrow> to_string v = Inr (projr (to_string v))"
  by (cases "to_string v") (simp_all add: printable_def)

lemma printable_falsy: "\<not> truthy v \<Longrightarrow> printable v"
  by (cases v) (simp_all add: printable_def)

lemma printable_string: "printable (JStr x)"
  by (simp add: printable_def)

lemma own_class_names:
  "token_error (ustr ''cdx-paragraph-image'') = None"
  "token_error (ustr ''cdx-paragraph-image__text'') = None"
  "token_error (ustr ''cdx-paragraph-image__title'') = None"
  "token_error (ustr ''cdx-paragraph-image__description'') = None"
  "token_error (ustr ''cdx-paragraph-image__image'') = None"
  by (simp_all add: token_error_def ustr_def ascii_white_space_def)

lemma example_tokens:
  "token_error (ustr ''cdx-block'') = None"
  "token_error (ustr ''cdx-input'') = None"
  "token_error (ustr ''cdx-loader'') = None"
  by (simp_all add: token_error_def ustr_def ascii_white_space_def)

subsection \<open>Timers\<close>

text \<open>A timer set last, and due no earlier than the others that are due, runs last.\<close>

lemma insort_key_before_last:
  "f y \<le> f x \<Longrightarrow> insort_key f y (zs @ [x]) = insort_key f y zs @ [x]"
  by (induction zs) simp_all

lemma sort_key_last:
  "\<forall>y \<in> set ys. f y \<le> f x \<Longrightarrow> sort_key f (ys @ [x]) = sort_key f ys @ [x]"
  by (induction ys) (simp_all add: insort_key_before_last)

lemma run_tasks_append:
  "run_tasks b (ts @ [t]) s =
     (case run_tasks b ts s of
        (es, s1) \<Rightarrow> (case run_task b t s1 of (e, s2) \<Rightarrow> (es @ uncaught e, s2)))"
  by (induction ts arbitrary: s) (simp_all split: prod.splits)

lemma elapse_setTimeout:
  "elapse b d (setTimeout t d s) =
     run_tasks b (map snd (sort_key fst (filter (\<lambda>x. fst x \<le> clock s + d) (timers s))) @ [t])
       (s\<lparr>clock := clock s + d, timers := filter (\<lambda>x. \<not> fst x \<le> clock s + d) (timers s)\<rparr>)"
proof -
  have "sort_key fst (filter (\<lambda>x. fst x \<le> clock s + d) (timers s) @ [(clock s + d, t)]) =
        sort_key fst (filter (\<lambda>x. fst x \<le> clock s + d) (timers s)) @ [(clock s + d, t)]"
    by (rule sort_key_last) simp
  then show ?thesis
    by (simp add: elapse_def setTimeout_def Let_def)
qed


lemma image_only_refl: "image_node (nodes s) = Some el \<Longrightarrow> image_only s s"
  by (simp add: image_only_def)

lemma image_only_trans: "image_only s s1 \<Longrightarrow> image_only s1 s2 \<Longrightarrow> image_only s s2"
  by (auto simp: image_only_def)

lemma image_only_fields:
  assumes "image_only s s'"
  shows "this_data s' = this_data s" "CSS_loader s' = CSS_loader s" "heap s' = heap s"
    "data s' = data s" "notifier_log s' = notifier_log s" "clock s' = clock s"
    "timers s' = timers s" "upload_prompts s' = upload_prompts s" "listeners s' = listeners s"
  using assms by (auto simp: image_only_def this_data_def CSS_loader_def)


lemma run_StopLoadingTask:
  assumes "image_node (nodes s) = Some el"
    and "token_error (CSS_loader s) = None"
  shows "run_task b StopLoadingTask s =
     (None, s\<lparr>nodes := (nodes s)\<lparr>image_node :=
            Some (el\<lparr>classList := filter (\<lambda>x. x \<noteq> CSS_loader s) (classList el),
                     style := None\<rparr>)\<rparr>\<rparr>)"
  using assms by (simp add: with_image_def classList_remove_def)

declare run_task.simps [simp del]



text \<open>
  In any case the callbacks leave everything but the image region as it is, and the
  image region in place.
\<close>

lemma run_task_image_only_any:
  assumes "image_node (nodes s) = Some el"
  shows "\<exists>e s'. run_task b t s = (e, s') \<and> image_only s s'"
proof (cases t)
  case ShowFullImageTask
  then show ?thesis
    using assms
    by (auto simp: run_task.simps with_image_def setImage_def image_only_def
        split: sum.splits option.splits)
next
  case StopLoadingTask
  then show ?thesis
    using assms
    by (auto simp: run_task.simps with_image_def image_only_def split: sum.splits option.splits)
qed

lemma run_tasks_image_only_any:
  assumes "image_node (nodes s) = Some el"
  shows "\<exists>es s'. run_tasks b ts s = (es, s') \<and> image_only s s'"
  using assms
proof (induction ts arbitrary: s el)
  case Nil
  then show ?case
    by (simp add: image_only_refl)
next
  case (Cons t ts)
  obtain e s1 where s1: "run_task b t s = (e, s1)" "image_only s s1"
    using run_task_image_only_any [OF Cons.prems] by blast
  obtain el1 where el1: "image_node (nodes s1) = Some el1"
    using s1(2) by (auto simp: image_only_def)
  from Cons.IH [OF el1] obtain es s2 where
    s2: "run_tasks b ts s1 = (es, s2)" "image_only s1 s2"
    by blast
  show ?case
    using s1 s2 image_only_trans by auto
qed


section \<open>The example block\<close>

lemma new_block_ok: "constructor 0 example_config example_styles empty_heap = Inr new_block"
  by (simp add: new_block_def constructor_def example_config_def)

lemma new_block_fields:
  "styles new_block = example_styles" "data new_block = 0" "heap new_block = empty_heap"
  "timers new_block = []" "notifier_log new_block = []" "clock new_block = 0"
  "upload_prompts new_block = 0"
  "textPlaceholder (config new_block) = JStr (ustr ''Text'')"
  "titlePlaceholder (config new_block) = JStr (ustr ''Title'')"
  "descriptionPlaceholder (config new_block) = JStr (ustr ''Description'')"
  by (simp_all add: new_block_def constructor_def example_config_def or_js_def)

lemma token_nonempty: "token_error c = None \<Longrightarrow> c \<noteq> []"
  by (auto simp: token_error_def)

lemma make_ClassName:
  "token_error c = None \<Longrightarrow>
     make t (ClassName c) = Inr ((createElement t)\<lparr>classList := [c]\<rparr>)"
  using token_nonempty [of c] by (simp add: make_def classList_add_def createElement_def)

lemma make_ClassArray:
  "token_error c = None \<Longrightarrow> token_error c' = None \<Longrightarrow>
     make t (ClassArray [c, c']) =
       Inr ((createElement t)\<lparr>classList := (if c' = c then [c] else [c, c'])\<rparr>)"
  by (simp add: make_def classList_add_def createElement_def)

lemma example_class_names:
  "ustr ''cdx-paragraph-image'' \<noteq> ustr ''cdx-block''"
  "ustr ''cdx-paragraph-image__text'' \<noteq> ustr ''cdx-input''"
  by (simp_all add: ustr_def)

lemma rendered_block_ok: "render example_browser new_block = Inr rendered_block"
  by (simp add: rendered_block_def render_def Let_def this_data_def new_block_fields empty_heap_def
      setImagePlaceholder_def placeholder_accepted_def with_image_def make_ClassName
      make_ClassArray own_class_names
      example_tokens example_styles_def set_innerHTML_def set_placeholder_def or_js_def)

lemma rendered_block_fields:
  "styles rendered_block = example_styles" "data rendered_block = 0"
  "heap rendered_block = empty_heap"
  "timers rendered_block = []" "notifier_log rendered_block = []" "clock rendered_block = 0"
  "upload_prompts rendered_block = 0"
  "listeners rendered_block = render_listeners"
  "image_node (nodes rendered_block) = Some (example_image_el\<lparr>style := Some BgPlaceholder\<rparr>)"
  by (simp_all add: rendered_block_def render_def Let_def this_data_def new_block_fields
      empty_heap_def setImagePlaceholder_def placeholder_accepted_def with_image_def
      make_ClassName make_ClassArray
      own_class_names example_tokens example_styles_def set_innerHTML_def set_placeholder_def
      or_js_def createElement_def example_image_el_def)

lemma loader_not_image_class: "ustr ''cdx-loader'' \<noteq> ustr ''cdx-paragraph-image__image''"
  by (simp add: ustr_def)

lemma loading_block_ok: "addLoader rendered_block = (None, loading_block)"
  by (simp add: loading_block_def addLoader_def with_image_def rendered_block_fields
      classList_add_def CSS_loader_def example_styles_def example_tokens)

lemma loading_block_fields:
  "styles loading_block = example_styles" "data loading_block = 0"
  "heap loading_block = empty_heap"
  "timers loading_block = []" "notifier_log loading_block = []" "clock loading_block = 0"
  "upload_prompts loading_block = 0"
  "listeners loading_block = render_listeners"
  "image_node (nodes loading_block) =
     Some (example_image_el\<lparr>classList := [ustr ''cdx-paragraph-image__image'', ustr ''cdx-loader''],
                              style := Some BgNone\<rparr>)"
  using loader_not_image_class
  by (simp_all add: loading_block_def addLoader_def with_image_def rendered_block_fields
      classList_add_def CSS_loader_def example_styles_def example_image_el_def example_tokens)

lemma loading_block_visual: "visual_state loading_block = Some Loading"
  by (simp add: visual_state_def visual_state_of_def loading_block_fields CSS_loader_def
      example_styles_def example_image_el_def)


section \<open>Validation of saved data\<close>

text \<open>
  C3. For every saved record whose \<open>text\<close> is a string, \<open>validate\<close> returns true if and
  only if the trimmed text is not the empty string. Every record with the same \<open>text\<close>
  gets the same answer, whatever its \<open>image\<close>, \<open>title\<close> and \<open>description\<close> are.
\<close>

theorem validate_iff_trimmed_text_nonempty:
  assumes "property (JObj r) ''text'' = JStr t"
  shows "validate (JObj r) = Inr (trim t \<noteq> []) \<and>
         (\<forall>r'. property (JObj r') ''text'' = JStr t \<longrightarrow> validate (JObj r') = validate (JObj r))"
  using assms by (simp add: validate_def get_prop_def)

lemma trim_hello: "trim (ustr '' Hello '') = ustr ''Hello''"
  by (simp add: trim_def ustr_def is_white_space_def white_space_def)

theorem validate_witness:
  "property (JObj [(''text'', JStr (ustr '' Hello '')), (''image'', JNull)]) ''text'' = JStr (ustr '' Hello '')
   \<and> validate (JObj [(''text'', JStr (ustr '' Hello '')), (''image'', JNull)]) = Inr True
   \<and> validate (JObj [(''title'', JStr (ustr ''T'')), (''text'', JStr (ustr '' Hello ''))]) = Inr True
   \<and> property (JObj [(''text'', JStr (ustr ''  ''))]) ''text'' = JStr (ustr ''  '')
   \<and> validate (JObj [(''text'', JStr (ustr ''  ''))]) = Inr False"
proof -
  have h: "property (JObj [(''text'', JStr (ustr '' Hello '')), (''image'', JNull)]) ''text''
             = JStr (ustr '' Hello '')"
    by simp
  have h': "property (JObj [(''title'', JStr (ustr ''T'')), (''text'', JStr (ustr '' Hello ''))]) ''text''
             = JStr (ustr '' Hello '')"
    by simp
  have h2: "property (JObj [(''text'', JStr (ustr ''  ''))]) ''text'' = JStr (ustr ''  '')"
    by simp
  have e: "trim (ustr ''  '') = []"
    by (simp add: trim_def ustr_def is_white_space_def white_space_def)
  have n: "ustr ''Hello'' \<noteq> []"
    by (simp add: ustr_def)
  show ?thesis
    using validate_iff_trimmed_text_nonempty [OF h] validate_iff_trimmed_text_nonempty [OF h2]
      h h' h2 e n trim_hello
    by simp
qed

text \<open>Without a string in \<open>text\<close> the call throws.\<close>

lemma validate_throws:
  "validate (JObj []) = Inl TypeError" "validate JUndefined = Inl TypeError"
  "validate (JObj [(''text'', JNull)]) = Inl TypeError"
  by (simp_all add: validate_def get_prop_def)


section \<open>A successful upload\<close>


lemma plain_url_examples:
  "plain_url (ustr ''https://x/y.png'')" "plain_url (ustr ''undefined'')"
  "\<not> plain_url quoted_url"
  by (simp_all add: plain_url_def ustr_def quoted_url_def)






section \<open>A failed upload\<close>

text \<open>
  The error path: \<open>uploadingFailed\<close> notifies once, with style \<open>error\<close>, and once the
  delay has passed the loader class (a valid class name) and the inline style are gone.
  \<open>data\<close> is untouched.
\<close>

lemma uploadingFailed_restores_placeholder:
  assumes el: "image_node (nodes s) = Some el"
    and tok: "token_error (CSS_loader s) = None"
  shows "\<exists>es s2 el2. elapse b LOADER_DELAY (uploadingFailed msg s) = (es, s2)
     \<and> image_node (nodes s2) = Some el2
     \<and> CSS_loader s2 \<notin> set (classList el2)
     \<and> style el2 = None
     \<and> visual_state s2 = Some Empty
     \<and> notifier_log s2 = notifier_log s @ [(msg, ustr ''error'')]
     \<and> this_data s2 = this_data s"
proof -
  define s0 where "s0 = s\<lparr>notifier_log := notifier_log s @ [(msg, ustr ''error'')]\<rparr>"
  have uf: "uploadingFailed msg s = setTimeout StopLoadingTask LOADER_DELAY s0"
    by (simp add: uploadingFailed_def stopLoading_def setTimeout_def s0_def Let_def)
  let ?pre = "map snd (sort_key fst (filter (\<lambda>x. fst x \<le> clock s0 + LOADER_DELAY) (timers s0)))"
  let ?s0' = "s0\<lparr>clock := clock s0 + LOADER_DELAY,
                 timers := filter (\<lambda>x. \<not> fst x \<le> clock s0 + LOADER_DELAY) (timers s0)\<rparr>"
  have e1: "elapse b LOADER_DELAY (uploadingFailed msg s) =
              run_tasks b (?pre @ [StopLoadingTask]) ?s0'"
    unfolding uf by (rule elapse_setTimeout)
  have a0: "image_node (nodes ?s0') = Some el"
    using el by (simp add: s0_def)
  obtain es sa where sa: "run_tasks b ?pre ?s0' = (es, sa)" "image_only ?s0' sa"
    using run_tasks_image_only_any [OF a0] by blast
  obtain ela where ela: "image_node (nodes sa) = Some ela"
    using sa(2) by (auto simp: image_only_def)
  have da: "this_data sa = this_data s" "CSS_loader sa = CSS_loader s"
    "notifier_log sa = notifier_log s @ [(msg, ustr ''error'')]"
    using image_only_fields(1,2,5) [OF sa(2)]
    by (simp_all add: s0_def this_data_def CSS_loader_def)
  have ta: "token_error (CSS_loader sa) = None"
    using da tok by simp
  define el2 where
    "el2 = ela\<lparr>classList := filter (\<lambda>x. x \<noteq> CSS_loader s) (classList ela), style := None\<rparr>"
  define s2 where "s2 = sa\<lparr>nodes := (nodes sa)\<lparr>image_node := Some el2\<rparr>\<rparr>"
  have run: "run_task b StopLoadingTask sa = (None, s2)"
    unfolding run_StopLoadingTask [OF ela ta] using da by (simp add: s2_def el2_def)
  have e2: "elapse b LOADER_DELAY (uploadingFailed msg s) = (es, s2)"
    unfolding e1 run_tasks_append using sa(1) run by simp
  have n2: "image_node (nodes s2) = Some el2"
    by (simp add: s2_def)
  have c2: "CSS_loader s2 = CSS_loader s"
    using da by (simp add: s2_def CSS_loader_def)
  have l2: "CSS_loader s2 \<notin> set (classList el2)"
    by (simp add: c2 el2_def)
  have st2: "style el2 = None"
    by (simp add: el2_def)
  have vs: "visual_state s2 = Some Empty"
    using n2 l2 st2 by (simp add: visual_state_def visual_state_of_def)
  have lg: "notifier_log s2 = notifier_log s @ [(msg, ustr ''error'')]"
    using da by (simp add: s2_def)
  have dt: "this_data s2 = this_data s"
    using da by (simp add: s2_def this_data_def)
  show ?thesis
    by (intro exI [of _ es] exI [of _ s2] exI [of _ el2] conjI e2 n2 l2 st2 vs lg dt)
qed

text \<open>
  The response path: a response that fails the test of \<open>onUpload\<close> changes nothing at
  all. No timer is set and no notification is made.
\<close>

lemma onUpload_ignores_failure_response:
  assumes "has_props response"
    and "has_props (property response ''body'')"
    and "\<not> (truthy (property (property response ''body'') ''success'')
            \<and> truthy (property (property response ''body'') ''file'')
            \<and> truthy (property (property (property response ''body'') ''file'') ''url''))"
  shows "onUpload response s = Inr s"
  using assms by (auto simp: onUpload_def get_prop_def Let_def)

text \<open>
  C1. The example block shows its loader when the upload ends with a response of
  \<open>success\<close> 0, or of \<open>success\<close> 1 with a file that has no \<open>url\<close>. \<open>onUpload\<close> returns
  the state unchanged; after the delay the region still shows as loading and no
  notification has been made.
\<close>

theorem failure_response_leaves_loader:
  "onUpload rejected_response loading_block = Inr loading_block
   \<and> onUpload malformed_response loading_block = Inr loading_block
   \<and> elapse example_browser LOADER_DELAY loading_block = ([], loading_block\<lparr>clock := 500\<rparr>)
   \<and> visual_state (loading_block\<lparr>clock := 500\<rparr>) = Some Loading
   \<and> notifier_log (loading_block\<lparr>clock := 500\<rparr>) = []"
proof -
  have a: "onUpload rejected_response loading_block = Inr loading_block"
    by (rule onUpload_ignores_failure_response) (simp_all add: rejected_response_def)
  have b: "onUpload malformed_response loading_block = Inr loading_block"
    by (rule onUpload_ignores_failure_response) (simp_all add: malformed_response_def)
  have c: "elapse example_browser LOADER_DELAY loading_block = ([], loading_block\<lparr>clock := 500\<rparr>)"
    by (simp add: elapse_def loading_block_fields LOADER_DELAY_def)
  have d: "visual_state (loading_block\<lparr>clock := 500\<rparr>) = Some Loading"
    using loading_block_visual by (simp add: visual_state_def CSS_loader_def)
  show ?thesis
    using a b c d by (simp add: loading_block_fields)
qed


section \<open>Saving\<close>

lemma save_rendered:
  assumes "text_node (nodes s) = Some te"
    and "title_node (nodes s) = Some ti"
    and "description_node (nodes s) = Some de"
  shows "save s =
     Inr (data s,
          set_data ''description'' (JStr (trim (textContent de)))
            (set_data ''title'' (JStr (trim (textContent ti)))
              (set_data ''text'' (JStr (trim (innerHTML te))) s)))"
  using assms by (simp add: save_def or_js_string)

lemma save_Inr_nodes:
  assumes "save s = Inr (r, s')"
  shows "\<exists>te ti de. text_node (nodes s) = Some te \<and> title_node (nodes s) = Some ti
           \<and> description_node (nodes s) = Some de"
  using assms by (auto simp: save_def split: option.splits sum.splits)

text \<open>
  C4. Once the block has rendered, \<open>save\<close> returns the reference held in \<open>this.data\<close>,
  and the object it refers to then has, as \<open>text\<close>, \<open>title\<close> and \<open>description\<close>, the
  trimmed \<open>innerHTML\<close> of the text region and the trimmed \<open>textContent\<close> of the title and
  description regions. Each is a string, never \<open>null\<close>, and the empty string when what
  was read is empty or white space only. The markup of the text region is stored as it
  is.
\<close>

theorem save_writes_trimmed_regions:
  assumes "text_node (nodes s) = Some te"
    and "title_node (nodes s) = Some ti"
    and "description_node (nodes s) = Some de"
  shows "\<exists>s'. save s = Inr (data s, s')
     \<and> data s' = data s
     \<and> property (this_data s') ''text'' = JStr (trim (innerHTML te))
     \<and> property (this_data s') ''title'' = JStr (trim (textContent ti))
     \<and> property (this_data s') ''description'' = JStr (trim (textContent de))
     \<and> ((\<forall>c \<in> set (innerHTML te). is_white_space c) \<longrightarrow> property (this_data s') ''text'' = JStr [])
     \<and> ((\<forall>c \<in> set (textContent ti). is_white_space c) \<longrightarrow> property (this_data s') ''title'' = JStr [])
     \<and> ((\<forall>c \<in> set (textContent de). is_white_space c)
           \<longrightarrow> property (this_data s') ''description'' = JStr [])"
proof -
  let ?s' = "set_data ''description'' (JStr (trim (textContent de)))
            (set_data ''title'' (JStr (trim (textContent ti)))
              (set_data ''text'' (JStr (trim (innerHTML te))) s))"
  have "save s = Inr (data s, ?s')"
    using assms by (rule save_rendered)
  moreover have "data ?s' = data s"
    by (simp add: set_data_fields)
  moreover have "property (this_data ?s') ''text'' = JStr (trim (innerHTML te))"
    "property (this_data ?s') ''title'' = JStr (trim (textContent ti))"
    "property (this_data ?s') ''description'' = JStr (trim (textContent de))"
    by (simp_all add: property_set_data)
  ultimately show ?thesis
    using trim_all_white_space by auto
qed

text \<open>
  C10. A call of \<open>save\<close> that returns leaves every field of the data object other than
  \<open>text\<close>, \<open>title\<close> and \<open>description\<close> as it was, present or absent, \<open>image\<close> among them.
  It changes no other object and nothing else of the block.
\<close>

theorem save_changes_three_fields_only:
  assumes "save s = Inr (r, s')"
    and "k \<noteq> ''text''" and "k \<noteq> ''title''" and "k \<noteq> ''description''"
  shows "map_of (heap s' (data s')) k = map_of (heap s (data s)) k
     \<and> property (this_data s') ''image'' = property (this_data s) ''image''
     \<and> data s' = data s
     \<and> (\<forall>a. a \<noteq> data s \<longrightarrow> heap s' a = heap s a)
     \<and> s' = s\<lparr>heap := heap s'\<rparr>"
proof -
  obtain te ti de where n: "text_node (nodes s) = Some te" "title_node (nodes s) = Some ti"
    "description_node (nodes s) = Some de"
    using save_Inr_nodes [OF assms(1)] by blast
  let ?s' = "set_data ''description'' (JStr (trim (textContent de)))
            (set_data ''title'' (JStr (trim (textContent ti)))
              (set_data ''text'' (JStr (trim (innerHTML te))) s))"
  have s': "s' = ?s'"
    using assms(1) save_rendered [OF n] by simp
  have "map_of (heap ?s' (data ?s')) k = map_of (heap s (data s)) k"
    using assms(2-4) by (simp add: map_of_set_data)
  moreover have "property (this_data ?s') ''image'' = property (this_data s) ''image''"
    by (simp add: property_set_data)
  moreover have "data ?s' = data s"
    by (simp add: set_data_fields)
  moreover have "\<forall>a. a \<noteq> data s \<longrightarrow> heap ?s' a = heap s a"
    by (simp add: set_data_other_objects set_data_fields)
  moreover have "?s' = s\<lparr>heap := heap ?s'\<rparr>"
    by (simp add: set_data_def)
  ultimately show ?thesis
    unfolding s' by blast
qed


subsection \<open>Saving the example block\<close>

lemma rendered_block_regions:
  "text_node (nodes rendered_block) =
     Some \<lparr>tagName = ''div'',
           classList = [ustr ''cdx-input'', ustr ''cdx-paragraph-image__text''],
           style = None, contentEditable = True, innerHTML = [], textContent = [],
           placeholder = Some (ustr ''Text'')\<rparr>"
  "title_node (nodes rendered_block) =
     Some \<lparr>tagName = ''div'', classList = [ustr ''cdx-paragraph-image__title''],
           style = None, contentEditable = True, innerHTML = [], textContent = [],
           placeholder = Some (ustr ''Title'')\<rparr>"
  "description_node (nodes rendered_block) =
     Some \<lparr>tagName = ''div'', classList = [ustr ''cdx-paragraph-image__description''],
           style = None, contentEditable = True, innerHTML = [], textContent = [],
           placeholder = Some (ustr ''Description'')\<rparr>"
  using example_class_names
  by (simp_all add: rendered_block_def render_def Let_def this_data_def new_block_fields
      empty_heap_def setImagePlaceholder_def placeholder_accepted_def with_image_def
      make_ClassName make_ClassArray
      own_class_names example_tokens example_styles_def set_innerHTML_def set_placeholder_def
      or_js_def createElement_def)

lemma edited_block_regions:
  "text_node (nodes edited_block) =
     Some \<lparr>tagName = ''div'',
           classList = [ustr ''cdx-input'', ustr ''cdx-paragraph-image__text''],
           style = None, contentEditable = True, innerHTML = ustr '' Hello <b>world</b>'',
           textContent = ustr '' Hello world'', placeholder = Some (ustr ''Text'')\<rparr>"
  "title_node (nodes edited_block) =
     Some \<lparr>tagName = ''div'', classList = [ustr ''cdx-paragraph-image__title''],
           style = None, contentEditable = True, innerHTML = ustr ''A title '',
           textContent = ustr ''A title '', placeholder = Some (ustr ''Title'')\<rparr>"
  "description_node (nodes edited_block) =
     Some \<lparr>tagName = ''div'', classList = [ustr ''cdx-paragraph-image__description''],
           style = None, contentEditable = True, innerHTML = [], textContent = [],
           placeholder = Some (ustr ''Description'')\<rparr>"
  by (simp_all add: edited_block_def rendered_block_regions)

lemma trim_examples:
  "trim (ustr '' Hello <b>world</b>'') = ustr ''Hello <b>world</b>''"
  "trim (ustr ''A title '') = ustr ''A title''"
  by (simp_all add: trim_def ustr_def is_white_space_def white_space_def)

theorem save_witness:
  "(\<exists>s'. save edited_block = Inr (data edited_block, s')
      \<and> property (this_data s') ''text'' = JStr (ustr ''Hello <b>world</b>'')
      \<and> property (this_data s') ''title'' = JStr (ustr ''A title'')
      \<and> property (this_data s') ''description'' = JStr [])
   \<and> (\<exists>s'. save rendered_block = Inr (data rendered_block, s')
      \<and> property (this_data s') ''text'' = JStr []
      \<and> property (this_data s') ''title'' = JStr []
      \<and> property (this_data s') ''description'' = JStr [])"
proof -
  have a: "\<exists>s'. save edited_block = Inr (data edited_block, s')
      \<and> property (this_data s') ''text'' = JStr (ustr ''Hello <b>world</b>'')
      \<and> property (this_data s') ''title'' = JStr (ustr ''A title'')
      \<and> property (this_data s') ''description'' = JStr []"
    using save_writes_trimmed_regions [OF edited_block_regions]
    by (auto simp: trim_examples)
  have b: "\<exists>s'. save rendered_block = Inr (data rendered_block, s')
      \<and> property (this_data s') ''text'' = JStr []
      \<and> property (this_data s') ''title'' = JStr []
      \<and> property (this_data s') ''description'' = JStr []"
    using save_writes_trimmed_regions [OF rendered_block_regions]
    by auto
  show ?thesis
    using a b by blast
qed

lemma line_break_block_fields:
  "listeners line_break_block = render_listeners"
  "text_node (nodes line_break_block) =
     Some \<lparr>tagName = ''div'',
           classList = [ustr ''cdx-input'', ustr ''cdx-paragraph-image__text''],
           style = None, contentEditable = True, innerHTML = ustr ''<br>'', textContent = [],
           placeholder = Some (ustr ''Text'')\<rparr>"
  "title_node (nodes line_break_block) = title_node (nodes rendered_block)"
  "description_node (nodes line_break_block) = description_node (nodes rendered_block)"
  "data line_break_block = 0"
  by (simp_all add: line_break_block_def rendered_block_fields rendered_block_regions)

text \<open>
  A text region that holds no text, only the line break a browser left behind, is not
  saved as the empty string: \<open>save\<close> stores the line break.
\<close>

theorem save_line_break_counterexample:
  "map_option textContent (text_node (nodes line_break_block)) = Some []
   \<and> map_option innerHTML (text_node (nodes line_break_block)) = Some (ustr ''<br>'')
   \<and> save line_break_block = Inr (0, saved_line_break_block)
   \<and> property (this_data saved_line_break_block) ''text'' = JStr (ustr ''<br>'')
   \<and> property (this_data saved_line_break_block) ''text'' \<noteq> JStr []"
proof -
  have t: "trim (ustr ''<br>'') = ustr ''<br>''" "ustr ''<br>'' \<noteq> []"
    by (simp_all add: trim_def ustr_def is_white_space_def white_space_def)
  have n: "trim [] = []"
    by (simp add: trim_def)
  have s: "save line_break_block =
     Inr (0, set_data ''description'' (JStr [])
               (set_data ''title'' (JStr [])
                 (set_data ''text'' (JStr (ustr ''<br>'')) line_break_block)))"
    using save_rendered [OF line_break_block_fields(2)
        line_break_block_fields(3) [unfolded rendered_block_regions(2)]
        line_break_block_fields(4) [unfolded rendered_block_regions(3)]]
    by (simp add: t n line_break_block_fields)
  have v: "property (this_data saved_line_break_block) ''text'' = JStr (ustr ''<br>'')"
    by (simp add: saved_line_break_block_def s property_set_data)
  show ?thesis
    using s v t by (simp add: saved_line_break_block_def line_break_block_fields)
qed

subsection \<open>The example block with its image\<close>

lemma example_upload:
  "onUpload example_response loading_block =
     Inr (showFullImage (set_data ''image'' (JObj [(''url'', JStr (ustr ''https://x/y.png''))])
            loading_block))"
  by (simp add: onUpload_def get_prop_def example_response_def Let_def ustr_def)

lemma loading_block_regions:
  "text_node (nodes loading_block) = text_node (nodes rendered_block)"
  "title_node (nodes loading_block) = title_node (nodes rendered_block)"
  "description_node (nodes loading_block) = description_node (nodes rendered_block)"
  by (simp_all add: loading_block_def addLoader_def with_image_def rendered_block_fields
      classList_add_def CSS_loader_def example_styles_def example_tokens)

lemma loaded_block_fields:
  "data loaded_block = 0"
  "heap loaded_block 0 = [(''image'', JObj [(''url'', JStr (ustr ''https://x/y.png''))])]"
  "listeners loaded_block = render_listeners"
  "timers loaded_block = []" "clock loaded_block = 500" "notifier_log loaded_block = []"
  "upload_prompts loaded_block = 0" "styles loaded_block = example_styles"
  "image_node (nodes loaded_block) =
     Some (example_image_el\<lparr>style := Some (BgImage (ustr ''https://x/y.png''))\<rparr>)"
  "text_node (nodes loaded_block) = text_node (nodes rendered_block)"
  "title_node (nodes loaded_block) = title_node (nodes rendered_block)"
  "description_node (nodes loaded_block) = description_node (nodes rendered_block)"
  using loader_not_image_class plain_url_examples(1)
  by (simp_all add: loaded_block_def uploaded_block_def example_upload showFullImage_def setTimeout_def elapse_def
      Let_def set_data_def loading_block_fields loading_block_regions LOADER_DELAY_def
      run_task.simps with_image_def setImage_def this_data_def get_prop_def empty_heap_def
      classList_remove_def CSS_loader_def example_styles_def example_image_el_def
      example_tokens example_browser_def)

lemma loaded_block_visual: "visual_state loaded_block = Some Loaded"
  using loader_not_image_class
  by (simp add: visual_state_def visual_state_of_def loaded_block_fields CSS_loader_def
      example_styles_def example_image_el_def)

theorem save_frame_witness:
  "(\<exists>s'. save loaded_block = Inr (0, s')
      \<and> map_of (heap s' (data s')) ''image''
           = Some (JObj [(''url'', JStr (ustr ''https://x/y.png''))])
      \<and> property (this_data s') ''image'' = JObj [(''url'', JStr (ustr ''https://x/y.png''))]
      \<and> map_of (heap s' (data s')) ''caption'' = None
      \<and> s' = loaded_block\<lparr>heap := heap s'\<rparr>)
   \<and> ''image'' \<noteq> ''text'' \<and> ''image'' \<noteq> ''title'' \<and> ''image'' \<noteq> ''description''"
proof -
  obtain s' where s': "save loaded_block = Inr (0, s')"
    using save_rendered [of loaded_block] rendered_block_regions
    by (simp add: loaded_block_fields)
  have k: "''image'' \<noteq> ''text''" "''image'' \<noteq> ''title''" "''image'' \<noteq> ''description''"
    "''caption'' \<noteq> ''text''" "''caption'' \<noteq> ''title''" "''caption'' \<noteq> ''description''"
    by simp_all
  have i: "map_of (heap s' (data s')) ''image'' = map_of (heap loaded_block (data loaded_block)) ''image''"
    "property (this_data s') ''image'' = property (this_data loaded_block) ''image''"
    "s' = loaded_block\<lparr>heap := heap s'\<rparr>"
    using save_changes_three_fields_only [OF s' k(1) k(2) k(3)] by blast+
  have c: "map_of (heap s' (data s')) ''caption'' = map_of (heap loaded_block (data loaded_block)) ''caption''"
    using save_changes_three_fields_only [OF s' k(4) k(5) k(6)] by blast
  have "map_of (heap s' (data s')) ''image'' = Some (JObj [(''url'', JStr (ustr ''https://x/y.png''))])"
    "property (this_data s') ''image'' = JObj [(''url'', JStr (ustr ''https://x/y.png''))]"
    "map_of (heap s' (data s')) ''caption'' = None"
    unfolding i(1) i(2) c by (simp_all add: loaded_block_fields this_data_def)
  then show ?thesis
    using s' i(3) by auto
qed


section \<open>Deleting the image\<close>

lemma dispatch_delete_click:
  assumes "image_node (nodes s) = Some el"
    and "listeners s = render_listeners"
  shows "dispatch DeleteImageButton Click s =
     ([], set_data ''image'' JNull
            (s\<lparr>nodes := (nodes s)\<lparr>image_node := Some (el\<lparr>style := Some BgPlaceholder\<rparr>)\<rparr>\<rparr>))"
  using assms
  by (simp add: dispatch_def listeners_on_def render_listeners_def setImagePlaceholder_def
      placeholder_accepted_def
      with_image_def)

text \<open>A click on the image region itself asks the uploader for a file.\<close>

lemma dispatch_image_click:
  assumes "listeners s = render_listeners"
  shows "dispatch ImageRegion Click s = ([], s\<lparr>upload_prompts := upload_prompts s + 1\<rparr>)"
  using assms
  by (simp add: dispatch_def listeners_on_def render_listeners_def)

text \<open>
  C5. Once the block has rendered, a click on the delete button runs to its end within
  the one event: no exception, \<open>data.image\<close> is \<open>null\<close>, and the background of the image
  region is the placeholder. No timer is set and the clock has not moved, the uploader
  has not been called (the click does not reach the image region), and no notification is
  made. Where the region carried no loader class it then shows as empty; where it
  carried the loader class it still carries it, and shows as loading.
\<close>

theorem delete_click_clears_image:
  assumes "image_node (nodes s) = Some el"
    and "listeners s = render_listeners"
  shows "\<exists>s'. dispatch DeleteImageButton Click s = ([], s')
     \<and> property (this_data s') ''image'' = JNull
     \<and> image_node (nodes s') = Some (el\<lparr>style := Some BgPlaceholder\<rparr>)
     \<and> timers s' = timers s \<and> clock s' = clock s
     \<and> upload_prompts s' = upload_prompts s
     \<and> notifier_log s' = notifier_log s
     \<and> (CSS_loader s \<notin> set (classList el) \<longrightarrow> visual_state s' = Some Empty)
     \<and> (CSS_loader s \<in> set (classList el) \<longrightarrow> visual_state s' = Some Loading)"
  unfolding dispatch_delete_click [OF assms]
  by (simp add: property_set_data set_data_fields visual_state_def visual_state_of_def
      CSS_loader_def)

lemma uploaded_block_fields:
  "onUpload example_response loading_block = Inr uploaded_block"
  "property (this_data uploaded_block) ''image'' =
     JObj [(''url'', JStr (ustr ''https://x/y.png''))]"
  "listeners uploaded_block = render_listeners"
  "timers uploaded_block = [(500, ShowFullImageTask)]"
  "clock uploaded_block = 0" "data uploaded_block = 0"
  "styles uploaded_block = example_styles"
  "image_node (nodes uploaded_block) =
     Some (example_image_el\<lparr>classList := [ustr ''cdx-paragraph-image__image'', ustr ''cdx-loader''],
                              style := Some BgNone\<rparr>)"
  by (simp_all add: uploaded_block_def example_upload showFullImage_def setTimeout_def
      set_data_def this_data_def loading_block_fields LOADER_DELAY_def empty_heap_def)

theorem delete_click_witness:
  "property (this_data loaded_block) ''image'' = JObj [(''url'', JStr (ustr ''https://x/y.png''))]
   \<and> visual_state loaded_block = Some Loaded
   \<and> listeners loaded_block = render_listeners
   \<and> (\<exists>s'. dispatch DeleteImageButton Click loaded_block = ([], s')
        \<and> property (this_data s') ''image'' = JNull
        \<and> visual_state s' = Some Empty
        \<and> timers s' = [] \<and> clock s' = 500 \<and> upload_prompts s' = 0 \<and> notifier_log s' = [])
   \<and> listeners uploaded_block = render_listeners
   \<and> (\<exists>s'. dispatch DeleteImageButton Click uploaded_block = ([], s')
        \<and> property (this_data s') ''image'' = JNull
        \<and> visual_state s' = Some Loading)"
proof -
  have l: "CSS_loader loaded_block \<notin> set (classList example_image_el)"
    using loader_not_image_class
    by (simp add: CSS_loader_def loaded_block_fields example_styles_def example_image_el_def)
  have a: "\<exists>s'. dispatch DeleteImageButton Click loaded_block = ([], s')
        \<and> property (this_data s') ''image'' = JNull
        \<and> visual_state s' = Some Empty
        \<and> timers s' = [] \<and> clock s' = 500 \<and> upload_prompts s' = 0 \<and> notifier_log s' = []"
    using delete_click_clears_image [OF loaded_block_fields(9) loaded_block_fields(3)] l
    by (auto simp: loaded_block_fields)
  have m: "CSS_loader uploaded_block \<in>
             set (classList (example_image_el\<lparr>classList :=
                    [ustr ''cdx-paragraph-image__image'', ustr ''cdx-loader''],
                  style := Some BgNone\<rparr>))"
    by (simp add: CSS_loader_def uploaded_block_fields example_styles_def)
  have b: "\<exists>s'. dispatch DeleteImageButton Click uploaded_block = ([], s')
        \<and> property (this_data s') ''image'' = JNull
        \<and> visual_state s' = Some Loading"
    using delete_click_clears_image [OF uploaded_block_fields(8) uploaded_block_fields(3)] m
    by blast
  show ?thesis
    using a b loaded_block_visual loaded_block_fields(3) uploaded_block_fields(3)
    by (simp add: loaded_block_fields this_data_def)
qed

text \<open>
  The example block when the upload has succeeded and the delay has not passed yet:
  \<open>data.image\<close> is the file record and the region carries the loader class. A click on
  the delete button then sets \<open>data.image\<close> to \<open>null\<close> and the placeholder background,
  but the region keeps the loader class and shows as loading, not as empty. When the
  delay has passed, the pending callback removes the loader class and throws a TypeError
  at \<open>this.data.image.url\<close>; only then the region shows as empty.
\<close>

lemma interrupted_block_fields:
  "dispatch DeleteImageButton Click uploaded_block = ([], interrupted_block)"
  "property (this_data interrupted_block) ''image'' = JNull"
  "timers interrupted_block = [(500, ShowFullImageTask)]"
  "clock interrupted_block = 0"
  "styles interrupted_block = example_styles"
  "image_node (nodes interrupted_block) =
     Some (example_image_el\<lparr>classList := [ustr ''cdx-paragraph-image__image'', ustr ''cdx-loader''],
                              style := Some BgPlaceholder\<rparr>)"
  by (simp_all add: interrupted_block_def
      dispatch_delete_click [OF uploaded_block_fields(8) uploaded_block_fields(3)]
      property_set_data set_data_fields uploaded_block_fields example_image_el_def)

theorem delete_click_while_loading_counterexample:
  "onUpload example_response loading_block = Inr uploaded_block
   \<and> property (this_data uploaded_block) ''image'' =
       JObj [(''url'', JStr (ustr ''https://x/y.png''))]
   \<and> property (this_data uploaded_block) ''image'' \<noteq> JNull
   \<and> dispatch DeleteImageButton Click uploaded_block = ([], interrupted_block)
   \<and> property (this_data interrupted_block) ''image'' = JNull
   \<and> map_option style (image_node (nodes interrupted_block)) = Some (Some BgPlaceholder)
   \<and> visual_state interrupted_block = Some Loading
   \<and> visual_state interrupted_block \<noteq> Some Empty
   \<and> fst (elapse example_browser LOADER_DELAY interrupted_block) = [TypeError]
   \<and> visual_state (snd (elapse example_browser LOADER_DELAY interrupted_block)) = Some Empty"
proof -
  have v: "visual_state interrupted_block = Some Loading"
    by (simp add: visual_state_def visual_state_of_def interrupted_block_fields CSS_loader_def
        example_styles_def example_image_el_def)
  have s: "map_option style (image_node (nodes interrupted_block)) = Some (Some BgPlaceholder)"
    by (simp add: interrupted_block_fields)
  have e: "elapse example_browser LOADER_DELAY interrupted_block =
     ([TypeError],
      interrupted_block\<lparr>clock := 500, timers := [],
        nodes := (nodes interrupted_block)\<lparr>image_node :=
          Some (example_image_el\<lparr>style := Some BgPlaceholder\<rparr>)\<rparr>\<rparr>)"
  proof -
    have d: "\<And>c t n. this_data (interrupted_block\<lparr>clock := c, timers := t, nodes := n\<rparr>) =
               this_data interrupted_block"
      by (simp add: this_data_def)
    show ?thesis
      using loader_not_image_class
      by (simp add: elapse_def Let_def LOADER_DELAY_def interrupted_block_fields run_task.simps
          with_image_def classList_remove_def CSS_loader_def example_styles_def example_tokens
          get_prop_def example_image_el_def d)
  qed
  have w: "visual_state (snd (elapse example_browser LOADER_DELAY interrupted_block)) = Some Empty"
    using loader_not_image_class
    by (simp add: e visual_state_def visual_state_of_def CSS_loader_def interrupted_block_fields
        example_styles_def example_image_el_def)
  show ?thesis
    using v s e w uploaded_block_fields(1,2) interrupted_block_fields(1,2) by simp
qed


section \<open>Construction\<close>

text \<open>
  C6. The constructor stores the reference it is given and writes nothing to the object:
  for every configuration that is not \<open>undefined\<close> or \<open>null\<close> it returns, \<open>this.data\<close>
  is the supplied reference, the heap is unchanged, and so every field of the data,
  \<open>text\<close>, \<open>title\<close>, \<open>description\<close> and \<open>image\<close> among them, is after construction what
  the supplied object has there, \<open>undefined\<close> where it has nothing.
\<close>

theorem constructor_keeps_supplied_data:
  assumes "has_props cfg"
  shows "\<exists>s. constructor d cfg api h = Inr s \<and> data s = d \<and> heap s = h
     \<and> (\<forall>k. property (this_data s) k = property (JObj (h d)) k)"
  using assms by (simp add: constructor_def this_data_def)

theorem constructor_keeps_supplied_data_witness:
  "has_props example_config
   \<and> (\<exists>s. constructor 0 example_config example_styles url_less_heap = Inr s
        \<and> data s = 0 \<and> heap s = url_less_heap
        \<and> property (this_data s) ''text'' = JStr (ustr ''Hello'')
        \<and> property (this_data s) ''title'' = JUndefined)"
proof -
  have h: "has_props example_config"
    by (simp add: example_config_def)
  have "property (JObj (url_less_heap 0)) ''text'' = JStr (ustr ''Hello'')"
    "property (JObj (url_less_heap 0)) ''title'' = JUndefined"
    by (simp_all add: url_less_heap_def)
  then show ?thesis
    using h constructor_keeps_supplied_data [OF h, of 0 example_styles url_less_heap]
    by auto
qed

text \<open>
  Constructed on an empty object, as the example page does, the block has a data record
  in which none of the four fields is defined.
\<close>

theorem constructor_empty_data_counterexample:
  "constructor 0 example_config example_styles empty_heap = Inr new_block
   \<and> empty_heap 0 = []
   \<and> property (this_data new_block) ''text'' = JUndefined
   \<and> property (this_data new_block) ''title'' = JUndefined
   \<and> property (this_data new_block) ''description'' = JUndefined
   \<and> property (this_data new_block) ''image'' = JUndefined"
proof -
  have "empty_heap 0 = []"
    by (simp add: empty_heap_def)
  then show ?thesis
    using new_block_ok by (simp add: this_data_def new_block_fields)
qed

lemma or_js_supplied_or_default:
  "supplied_or_default cfg k dflt (or_js (property (JObj cfg) k) dflt)"
  by (auto simp: supplied_or_default_def or_js_def)

text \<open>
  C7. For every configuration object the constructor returns, and each of the eight
  fields of \<open>this.config\<close> is the documented default when the object lacks the key (or
  has a falsy value there), and the supplied value otherwise.
\<close>

theorem constructor_config_defaults:
  "\<exists>s. constructor d (JObj cfg) api h = Inr s
     \<and> supplied_or_default cfg ''endpoint'' (JStr []) (endpoint (config s))
     \<and> supplied_or_default cfg ''field'' (JStr (ustr ''image'')) (field (config s))
     \<and> supplied_or_default cfg ''types'' (JStr (ustr ''image/*'')) (types (config s))
     \<and> supplied_or_default cfg ''additionalRequestData'' (JObj []) (additionalRequestData (config s))
     \<and> supplied_or_default cfg ''additionalRequestHeaders'' (JObj [])
          (additionalRequestHeaders (config s))
     \<and> supplied_or_default cfg ''textPlaceholder'' (JStr (ustr ''Text'')) (textPlaceholder (config s))
     \<and> supplied_or_default cfg ''titlePlaceholder'' (JStr (ustr ''Title'')) (titlePlaceholder (config s))
     \<and> supplied_or_default cfg ''descriptionPlaceholder'' (JStr (ustr ''Description''))
          (descriptionPlaceholder (config s))"
  by (simp add: constructor_def or_js_supplied_or_default del: property.simps)

theorem constructor_config_defaults_witness:
  "(\<exists>s. constructor 0 (JObj []) example_styles empty_heap = Inr s
      \<and> config s =
          \<lparr>endpoint = JStr [], field = JStr (ustr ''image''), types = JStr (ustr ''image/*''),
           additionalRequestData = JObj [], additionalRequestHeaders = JObj [],
           textPlaceholder = JStr (ustr ''Text''), titlePlaceholder = JStr (ustr ''Title''),
           descriptionPlaceholder = JStr (ustr ''Description'')\<rparr>)
   \<and> (\<exists>s. constructor 0 example_config example_styles empty_heap = Inr s
      \<and> config s =
          \<lparr>endpoint = JStr (ustr ''http://localhost:8008/uploadFile''),
           field = JStr (ustr ''image''), types = JStr (ustr ''image/*''),
           additionalRequestData = JObj [], additionalRequestHeaders = JObj [],
           textPlaceholder = JStr (ustr ''Text''), titlePlaceholder = JStr (ustr ''Title''),
           descriptionPlaceholder = JStr (ustr ''Description'')\<rparr>)"
proof -
  have u: "ustr ''http://localhost:8008/uploadFile'' \<noteq> []"
    by (simp add: ustr_def)
  have a: "\<exists>s. constructor 0 (JObj []) example_styles empty_heap = Inr s
      \<and> config s =
          \<lparr>endpoint = JStr [], field = JStr (ustr ''image''), types = JStr (ustr ''image/*''),
           additionalRequestData = JObj [], additionalRequestHeaders = JObj [],
           textPlaceholder = JStr (ustr ''Text''), titlePlaceholder = JStr (ustr ''Title''),
           descriptionPlaceholder = JStr (ustr ''Description'')\<rparr>"
    using constructor_config_defaults [of 0 "[]" example_styles empty_heap]
    by (auto simp: supplied_or_default_def)
  have b: "\<exists>s. constructor 0 example_config example_styles empty_heap = Inr s
      \<and> config s =
          \<lparr>endpoint = JStr (ustr ''http://localhost:8008/uploadFile''),
           field = JStr (ustr ''image''), types = JStr (ustr ''image/*''),
           additionalRequestData = JObj [], additionalRequestHeaders = JObj [],
           textPlaceholder = JStr (ustr ''Text''), titlePlaceholder = JStr (ustr ''Title''),
           descriptionPlaceholder = JStr (ustr ''Description'')\<rparr>"
    using u constructor_config_defaults
      [of 0 "[(''endpoint'', JStr (ustr ''http://localhost:8008/uploadFile'')),
              (''placeholder'', JStr [])]" example_styles empty_heap]
    by (auto simp: supplied_or_default_def example_config_def)
  show ?thesis
    using a b by blast
qed

text \<open>A configuration that is \<open>undefined\<close> or \<open>null\<close> makes the constructor throw.\<close>

lemma constructor_without_config:
  "constructor d JUndefined api h = Inl TypeError" "constructor d JNull api h = Inl TypeError"
  by (simp_all add: constructor_def)


section \<open>Rendering the image region\<close>

text \<open>
  \<open>render\<close> throws exactly when one of the values it converts to a string has no
  conversion, or a class name of the host it adds is not a valid token.
\<close>

lemma printable_or_js: "printable v \<Longrightarrow> printable (or_js v (JStr []))"
  by (simp add: or_js_def printable_string)

lemma set_innerHTML_Inr:
  "printable v \<Longrightarrow> \<exists>el'. set_innerHTML b v el = Inr el'"
  by (cases "to_string v") (simp_all add: set_innerHTML_def printable_def)

lemma set_textContent_Inr:
  "printable v \<Longrightarrow> \<exists>el'. set_textContent b v el = Inr el'"
  by (cases "to_string v") (simp_all add: set_textContent_def printable_def)

lemma set_placeholder_ex:
  "printable v \<Longrightarrow> \<exists>el'. set_placeholder v el = Inr el'"
  by (cases "to_string v") (simp_all add: set_placeholder_def printable_def)

lemma make_own_class:
  "make t (ClassName (ustr ''cdx-paragraph-image__title'')) =
     Inr ((createElement t)\<lparr>classList := [ustr ''cdx-paragraph-image__title'']\<rparr>)"
  "make t (ClassName (ustr ''cdx-paragraph-image__description'')) =
     Inr ((createElement t)\<lparr>classList := [ustr ''cdx-paragraph-image__description'']\<rparr>)"
  "make t (ClassName (ustr ''cdx-paragraph-image__image'')) =
     Inr ((createElement t)\<lparr>classList := [ustr ''cdx-paragraph-image__image'']\<rparr>)"
  by (simp_all add: make_ClassName own_class_names)

text \<open>
  C8. Where the values \<open>render\<close> converts to strings have a conversion and the host's
  class names are valid, \<open>render\<close> returns. It gives the image region the placeholder
  background exactly when \<open>data.image\<close> is falsy. For a truthy \<open>image\<close> it sets the
  background of the image at the string \<open>image.url\<close> converts to, whatever that is, the
  string \<open>undefined\<close> included: the region has that background when the browser
  accepts the declaration, and no inline style when it does not. With a loader class
  other than the region's own class, the region then shows as loaded in the first of
  these two cases and as empty otherwise. The data is not changed.
\<close>

theorem render_image_branch:
  assumes "renderable s"
  shows "\<exists>s' el u. render b s = Inr s'
     \<and> image_node (nodes s') = Some el
     \<and> classList el = [ustr ''cdx-paragraph-image__image'']
     \<and> to_string (property (property (this_data s) ''image'') ''url'') = Inr u
     \<and> style el = (if truthy (property (this_data s) ''image'')
                    then (if accepts_url b u then Some (BgImage u) else None)
                    else Some BgPlaceholder)
     \<and> heap s' = heap s \<and> data s' = data s \<and> styles s' = styles s
     \<and> (loader (styles s) \<noteq> ustr ''cdx-paragraph-image__image'' \<longrightarrow>
          visual_state s' =
            Some (if truthy (property (this_data s) ''image'') \<and> accepts_url b u
                  then Loaded else Empty))"
proof -
  obtain u where u: "to_string (property (property (this_data s) ''image'') ''url'') = Inr u"
    using assms printable_Inr by (auto simp: renderable_def)
  have tok: "token_error (block (styles s)) = None" "token_error (input (styles s)) = None"
    using assms by (simp_all add: renderable_def)
  obtain wrapper_el where
    w: "make ''div'' (ClassArray [block (styles s), ustr ''cdx-paragraph-image'']) = Inr wrapper_el"
    by (simp add: make_ClassArray tok own_class_names)
  obtain text_el0 where
    t0: "make ''div'' (ClassArray [input (styles s), ustr ''cdx-paragraph-image__text'']) =
           Inr text_el0"
    by (simp add: make_ClassArray tok own_class_names)
  have "printable (or_js (property (this_data s) ''text'') (JStr []))"
    using assms by (simp add: renderable_def printable_or_js)
  then obtain text_el1 where
    t1: "set_innerHTML b (or_js (property (this_data s) ''text'') (JStr [])) (text_el0\<lparr>contentEditable := True\<rparr>)
           = Inr text_el1"
    using set_innerHTML_Inr by blast
  obtain text_el where t2: "set_placeholder (textPlaceholder (config s)) text_el1 = Inr text_el"
    using assms set_placeholder_ex by (auto simp: renderable_def)
  define title_el0 where
    "title_el0 = (createElement ''div'')\<lparr>classList := [ustr ''cdx-paragraph-image__title'']\<rparr>"
  obtain title_el1 where
    i1: "set_placeholder (titlePlaceholder (config s)) (title_el0\<lparr>contentEditable := True\<rparr>)
           = Inr title_el1"
    using assms set_placeholder_ex by (auto simp: renderable_def)
  have "printable (property (this_data s) ''title'')"
    using assms by (simp add: renderable_def)
  then obtain x where "set_textContent b (property (this_data s) ''title'') title_el1 = Inr x"
    using set_textContent_Inr by blast
  then obtain title_el where
    i2: "(if truthy (property (this_data s) ''title'')
          then set_textContent b (property (this_data s) ''title'') title_el1
          else Inr title_el1) = Inr title_el"
    by (cases "truthy (property (this_data s) ''title'')") simp_all
  define description_el0 where "description_el0 =
    (createElement ''div'')\<lparr>classList := [ustr ''cdx-paragraph-image__description'']\<rparr>"
  obtain description_el1 where
    e1: "set_placeholder (descriptionPlaceholder (config s))
           (description_el0\<lparr>contentEditable := True\<rparr>) = Inr description_el1"
    using assms set_placeholder_ex by (auto simp: renderable_def)
  have "printable (property (this_data s) ''description'')"
    using assms by (simp add: renderable_def)
  then obtain y where
    "set_textContent b (property (this_data s) ''description'') description_el1 = Inr y"
    using set_textContent_Inr by blast
  then obtain description_el where
    e2: "(if truthy (property (this_data s) ''description'')
          then set_textContent b (property (this_data s) ''description'') description_el1
          else Inr description_el1) = Inr description_el"
    by (cases "truthy (property (this_data s) ''description'')") simp_all
  define image_el where
    "image_el = (createElement ''div'')\<lparr>classList := [ustr ''cdx-paragraph-image__image'']\<rparr>"
  define s1 where "s1 = s\<lparr>
      nodes := \<lparr>wrapper_node = Some wrapper_el, text_node = Some text_el,
                 image_node = Some image_el, title_node = Some title_el,
                 description_node = Some description_el\<rparr>,
      tooltip_log := tooltip_log s @ [(DeleteImageButton, ustr ''Delete'')],
      listeners := render_listeners\<rparr>"
  have r: "render b s =
     (if truthy (property (this_data s) ''image'') then setImage b (property (property (this_data s) ''image'') ''url'') s1
      else setImagePlaceholder s1)"
    unfolding render_def Let_def
    by (simp only: w t0 t1 t2 make_own_class i1 i2 e1 e2 sum.case s1_def
        title_el0_def [symmetric] description_el0_def [symmetric] image_el_def [symmetric])
  define el where "el =
     (if truthy (property (this_data s) ''image'')
      then (if accepts_url b u then image_el\<lparr>style := Some (BgImage u)\<rparr> else image_el)
      else image_el\<lparr>style := Some BgPlaceholder\<rparr>)"
  define s' where "s' = s1\<lparr>nodes := (nodes s1)\<lparr>image_node := Some el\<rparr>\<rparr>"
  have n1: "image_node (nodes s1) = Some image_el"
    by (simp add: s1_def)
  have r': "render b s = Inr s'"
    unfolding r using n1 u
    by (simp add: setImage_def setImagePlaceholder_def placeholder_accepted_def with_image_def
        s'_def el_def)
  have n': "image_node (nodes s') = Some el"
    by (simp add: s'_def)
  have c: "classList el = [ustr ''cdx-paragraph-image__image'']"
    by (simp add: el_def image_el_def)
  have st: "style el = (if truthy (property (this_data s) ''image'')
                    then (if accepts_url b u then Some (BgImage u) else None)
                    else Some BgPlaceholder)"
    by (simp add: el_def image_el_def createElement_def)
  have f: "heap s' = heap s" "data s' = data s" "styles s' = styles s"
    by (simp_all add: s'_def s1_def)
  have v: "loader (styles s) \<noteq> ustr ''cdx-paragraph-image__image'' \<longrightarrow>
          visual_state s' =
            Some (if truthy (property (this_data s) ''image'') \<and> accepts_url b u then Loaded else Empty)"
    using n' c st f(3) by (simp add: visual_state_def visual_state_of_def CSS_loader_def)
  show ?thesis
    by (intro exI [of _ s'] exI [of _ el] exI [of _ u] conjI r' n' c u st f v)
qed

text \<open>Conversely, \<open>render\<close> returns in no other state.\<close>

lemma make_ClassArray_Inr:
  "make t (ClassArray [c, c']) = Inr el \<Longrightarrow> token_error c = None"
  by (auto simp: make_def classList_add_def split: option.splits)

lemma set_innerHTML_printable: "set_innerHTML b v el = Inr el' \<Longrightarrow> printable v"
  by (cases "to_string v") (simp_all add: set_innerHTML_def printable_def)

lemma set_textContent_printable: "set_textContent b v el = Inr el' \<Longrightarrow> printable v"
  by (cases "to_string v") (simp_all add: set_textContent_def printable_def)

lemma set_placeholder_printable: "set_placeholder v el = Inr el' \<Longrightarrow> printable v"
  by (cases "to_string v") (simp_all add: set_placeholder_def printable_def)

lemma setImage_printable: "setImage b v s = Inr s' \<Longrightarrow> printable v"
  by (cases "to_string v")
    (auto simp: setImage_def with_image_def printable_def split: option.splits)

lemma printable_or_js_D: "printable (or_js v (JStr [])) \<Longrightarrow> printable v"
  by (cases "truthy v") (simp_all add: or_js_def printable_falsy)

lemma printable_property_falsy: "\<not> truthy v \<Longrightarrow> printable (property v k)"
  by (cases v) (simp_all add: printable_def)

lemma render_returns_renderable:
  assumes "render b s = Inr s'"
  shows "renderable s"
proof -
  let ?d = "this_data s"
  note r = assms [unfolded render_def Let_def]
  obtain w where w: "make ''div'' (ClassArray [block (styles s), ustr ''cdx-paragraph-image'']) = Inr w"
    using r
    by (cases "make ''div'' (ClassArray [block (styles s), ustr ''cdx-paragraph-image''])")
      simp_all
  note r1 = r [unfolded w sum.case]
  obtain t0 where
    t0: "make ''div'' (ClassArray [input (styles s), ustr ''cdx-paragraph-image__text'']) = Inr t0"
    using r1
    by (cases "make ''div'' (ClassArray [input (styles s), ustr ''cdx-paragraph-image__text''])")
      simp_all
  note r2 = r1 [unfolded t0 sum.case]
  obtain t1 where
    t1: "set_innerHTML b (or_js (property ?d ''text'') (JStr [])) (t0\<lparr>contentEditable := True\<rparr>)
           = Inr t1"
    using r2
    by (cases "set_innerHTML b (or_js (property ?d ''text'') (JStr []))
                 (t0\<lparr>contentEditable := True\<rparr>)")
      simp_all
  note r3 = r2 [unfolded t1 sum.case]
  obtain t2 where t2: "set_placeholder (textPlaceholder (config s)) t1 = Inr t2"
    using r3 by (cases "set_placeholder (textPlaceholder (config s)) t1") simp_all
  note r4 = r3 [unfolded t2 make_own_class sum.case]
  let ?i0 = "(createElement ''div'')\<lparr>classList := [ustr ''cdx-paragraph-image__title''],
               contentEditable := True\<rparr>"
  obtain i1 where i1: "set_placeholder (titlePlaceholder (config s)) ?i0 = Inr i1"
    using r4 by (cases "set_placeholder (titlePlaceholder (config s)) ?i0") simp_all
  note r5 = r4 [unfolded i1 sum.case]
  let ?i = "if truthy (property ?d ''title'') then set_textContent b (property ?d ''title'') i1
            else Inr i1"
  obtain i2 where i2: "?i = Inr i2"
    using r5 by (cases ?i) simp_all
  note r6 = r5 [unfolded i2 sum.case]
  let ?e0 = "(createElement ''div'')\<lparr>classList := [ustr ''cdx-paragraph-image__description''],
               contentEditable := True\<rparr>"
  obtain e1 where e1: "set_placeholder (descriptionPlaceholder (config s)) ?e0 = Inr e1"
    using r6 by (cases "set_placeholder (descriptionPlaceholder (config s)) ?e0") simp_all
  note r7 = r6 [unfolded e1 sum.case]
  let ?e = "if truthy (property ?d ''description'')
            then set_textContent b (property ?d ''description'') e1 else Inr e1"
  obtain e2 where e2: "?e = Inr e2"
    using r7 by (cases ?e) simp_all
  note r8 = r7 [unfolded e2 sum.case]
  have "token_error (block (styles s)) = None" "token_error (input (styles s)) = None"
    using w t0 make_ClassArray_Inr by blast+
  moreover have "printable (property ?d ''text'')"
    using t1 set_innerHTML_printable printable_or_js_D by blast
  moreover have "printable (textPlaceholder (config s))"
    "printable (titlePlaceholder (config s))" "printable (descriptionPlaceholder (config s))"
    using t2 i1 e1 set_placeholder_printable by blast+
  moreover have "printable (property ?d ''title'')"
    using i2 set_textContent_printable printable_falsy
    by (cases "truthy (property ?d ''title'')") auto
  moreover have "printable (property ?d ''description'')"
    using e2 set_textContent_printable printable_falsy
    by (cases "truthy (property ?d ''description'')") auto
  moreover have "printable (property (property ?d ''image'') ''url'')"
    using r8 setImage_printable printable_property_falsy
    by (cases "truthy (property ?d ''image'')") auto
  ultimately show ?thesis
    by (simp add: renderable_def)
qed

lemma render_throws: "\<not> renderable s \<Longrightarrow> isl (render b s)"
  using render_returns_renderable [of b s] by (cases "render b s") auto

lemma restored_block_ok:
  "constructor 0 example_config example_styles url_less_heap = Inr restored_block"
  by (simp add: restored_block_def constructor_def example_config_def)

lemma restored_block_fields:
  "styles restored_block = example_styles" "data restored_block = 0"
  "heap restored_block = url_less_heap"
  "textPlaceholder (config restored_block) = JStr (ustr ''Text'')"
  "titlePlaceholder (config restored_block) = JStr (ustr ''Title'')"
  "descriptionPlaceholder (config restored_block) = JStr (ustr ''Description'')"
  by (simp_all add: restored_block_def constructor_def example_config_def or_js_def)

lemma restored_block_image:
  "property (this_data restored_block) ''image'' = JObj []"
  "truthy (property (this_data restored_block) ''image'')"
  "property (property (this_data restored_block) ''image'') ''url'' = JUndefined"
  by (simp_all add: this_data_def restored_block_fields url_less_heap_def)

lemma restored_block_renderable: "renderable restored_block"
  by (simp add: renderable_def restored_block_fields example_styles_def example_tokens
      printable_def this_data_def url_less_heap_def)

lemma quoted_restored_block_fields:
  "styles quoted_restored_block = example_styles"
  "truthy (property (this_data quoted_restored_block) ''image'')"
  "property (property (this_data quoted_restored_block) ''image'') ''url'' = JStr quoted_url"
  "renderable quoted_restored_block"
  by (simp_all add: quoted_restored_block_def constructor_def example_config_def or_js_def
      this_data_def quoted_heap_def renderable_def example_styles_def example_tokens
      printable_def)

lemma new_block_image:
  "property (this_data new_block) ''image'' = JUndefined"
  "\<not> truthy (property (this_data new_block) ''image'')"
  by (simp_all add: this_data_def new_block_fields empty_heap_def)

lemma new_block_renderable: "renderable new_block"
  by (simp add: renderable_def new_block_fields example_styles_def example_tokens
      printable_def this_data_def empty_heap_def)

theorem render_image_branch_witness:
  "renderable restored_block
   \<and> loader (styles restored_block) \<noteq> ustr ''cdx-paragraph-image__image''
   \<and> (\<exists>s' el. render example_browser restored_block = Inr s'
        \<and> image_node (nodes s') = Some el
        \<and> style el = Some (BgImage (ustr ''undefined''))
        \<and> visual_state s' = Some Loaded)
   \<and> renderable quoted_restored_block
   \<and> loader (styles quoted_restored_block) \<noteq> ustr ''cdx-paragraph-image__image''
   \<and> (\<exists>s' el. render example_browser quoted_restored_block = Inr s'
        \<and> image_node (nodes s') = Some el
        \<and> style el = None
        \<and> visual_state s' = Some Empty)
   \<and> renderable new_block
   \<and> loader (styles new_block) \<noteq> ustr ''cdx-paragraph-image__image''
   \<and> (\<exists>s' el. render example_browser new_block = Inr s'
        \<and> image_node (nodes s') = Some el
        \<and> style el = Some BgPlaceholder
        \<and> visual_state s' = Some Empty)"
proof -
  have l: "loader (styles restored_block) \<noteq> ustr ''cdx-paragraph-image__image''"
    "loader (styles quoted_restored_block) \<noteq> ustr ''cdx-paragraph-image__image''"
    "loader (styles new_block) \<noteq> ustr ''cdx-paragraph-image__image''"
    using loader_not_image_class
    by (simp_all add: restored_block_fields quoted_restored_block_fields new_block_fields
        example_styles_def)
  have p: "accepts_url example_browser (ustr ''undefined'')"
    "\<not> accepts_url example_browser quoted_url"
    by (simp_all add: example_browser_def plain_url_examples)
  have a: "\<exists>s' el. render example_browser restored_block = Inr s'
        \<and> image_node (nodes s') = Some el
        \<and> style el = Some (BgImage (ustr ''undefined''))
        \<and> visual_state s' = Some Loaded"
    using render_image_branch [OF restored_block_renderable, of example_browser] l(1)
      restored_block_image p
    by auto
  have q: "\<exists>s' el. render example_browser quoted_restored_block = Inr s'
        \<and> image_node (nodes s') = Some el
        \<and> style el = None
        \<and> visual_state s' = Some Empty"
    using render_image_branch [OF quoted_restored_block_fields(4), of example_browser] l(2)
      quoted_restored_block_fields(2,3) p
    by auto
  have b: "\<exists>s' el. render example_browser new_block = Inr s'
        \<and> image_node (nodes s') = Some el
        \<and> style el = Some BgPlaceholder
        \<and> visual_state s' = Some Empty"
    using render_image_branch [OF new_block_renderable, of example_browser] l(3) new_block_image
    by auto
  show ?thesis
    using l a q b restored_block_renderable quoted_restored_block_fields(4) new_block_renderable
    by blast
qed

text \<open>
  Restored from saved data whose image record has no \<open>url\<close>, the block renders without
  an exception, and its image region has the background of an image at \<open>undefined\<close> and
  shows as loaded: it does not show the placeholder.
\<close>

lemma url_less_block_fields:
  "render example_browser restored_block = Inr url_less_block"
  "image_node (nodes url_less_block) =
     Some (example_image_el\<lparr>style := Some (BgImage (ustr ''undefined''))\<rparr>)"
  "CSS_loader url_less_block = ustr ''cdx-loader''"
  using plain_url_examples(2) example_class_names
  by (simp_all add: url_less_block_def render_def Let_def setImage_def with_image_def
      make_ClassName make_ClassArray own_class_names example_tokens restored_block_fields
      example_styles_def set_innerHTML_def set_placeholder_def or_js_def CSS_loader_def
      createElement_def example_image_el_def example_browser_def this_data_def
      url_less_heap_def)

theorem render_url_less_image_counterexample:
  "property (this_data restored_block) ''image'' = JObj []
   \<and> property (JObj []) ''url'' = JUndefined
   \<and> render example_browser restored_block = Inr url_less_block
   \<and> map_option style (image_node (nodes url_less_block)) =
       Some (Some (BgImage (ustr ''undefined'')))
   \<and> visual_state url_less_block = Some Loaded
   \<and> visual_state url_less_block \<noteq> Some Empty"
proof -
  have v: "visual_state url_less_block = Some Loaded"
    using loader_not_image_class
    by (simp add: visual_state_def visual_state_of_def url_less_block_fields example_image_el_def)
  show ?thesis
    using url_less_block_fields(1,2) v restored_block_image by simp
qed


section \<open>Key releases in the text region\<close>

text \<open>
  Called on the block, \<open>onKeyUp\<close> does what its comment says: on Backspace or Delete
  with empty text content it sets the markup to the empty string, and otherwise it
  changes nothing.
\<close>

lemma onKeyUp_on_block:
  assumes "text_node (nodes s) = Some el"
    and "c = ustr ''Backspace'' \<or> c = ustr ''Delete''"
  shows "onKeyUp ThisBlock (KeyUp c) s =
     Inr (if textContent el = []
          then s\<lparr>nodes := (nodes s)\<lparr>text_node := Some (el\<lparr>innerHTML := []\<rparr>)\<rparr>\<rparr>
          else s)"
  using assms by (auto simp: onKeyUp_def)

lemma onKeyUp_other_key:
  assumes "c \<noteq> ustr ''Backspace''" and "c \<noteq> ustr ''Delete''"
  shows "onKeyUp this (KeyUp c) s = Inr s"
  using assms by (simp add: onKeyUp_def)

text \<open>
  As the listener of the text region it runs with \<open>this\<close> the element. A release of
  another key still changes nothing; a release of Backspace or Delete throws before
  anything is read from the region, whatever the region holds.
\<close>

lemma keyup_other_key:
  assumes "listeners s = render_listeners"
    and "c \<noteq> ustr ''Backspace''" and "c \<noteq> ustr ''Delete''"
  shows "dispatch TextRegion (KeyUp c) s = ([], s)"
  using assms
  by (simp add: dispatch_def listeners_on_def render_listeners_def onKeyUp_def)

lemma keyup_backspace_or_delete:
  assumes "listeners s = render_listeners"
    and "c = ustr ''Backspace'' \<or> c = ustr ''Delete''"
  shows "dispatch TextRegion (KeyUp c) s = ([TypeError], s)"
  using assms
  by (auto simp: dispatch_def listeners_on_def render_listeners_def onKeyUp_def)

text \<open>
  C9. In the example block the text region holds a line break and no text. The release
  of Backspace, and of Delete, ends with an uncaught TypeError and the region as it was,
  the line break still in its markup. The same method called on the block would have
  emptied the markup.
\<close>

theorem keyup_listener_throws:
  "map_option innerHTML (text_node (nodes line_break_block)) = Some (ustr ''<br>'')
   \<and> map_option textContent (text_node (nodes line_break_block)) = Some []
   \<and> (TextRegion, OnKeyUpMethod) \<in> set (listeners line_break_block)
   \<and> dispatch TextRegion (KeyUp (ustr ''Backspace'')) line_break_block = ([TypeError], line_break_block)
   \<and> dispatch TextRegion (KeyUp (ustr ''Delete'')) line_break_block = ([TypeError], line_break_block)
   \<and> map_option innerHTML
        (text_node (nodes (projr (onKeyUp ThisBlock (KeyUp (ustr ''Backspace'')) line_break_block))))
       = Some []"
proof -
  have a: "dispatch TextRegion (KeyUp (ustr ''Backspace'')) line_break_block
             = ([TypeError], line_break_block)"
    by (rule keyup_backspace_or_delete) (simp_all add: line_break_block_fields)
  have b: "dispatch TextRegion (KeyUp (ustr ''Delete'')) line_break_block
             = ([TypeError], line_break_block)"
    by (rule keyup_backspace_or_delete) (simp_all add: line_break_block_fields)
  have c: "map_option innerHTML
        (text_node (nodes (projr (onKeyUp ThisBlock (KeyUp (ustr ''Backspace'')) line_break_block))))
       = Some []"
    by (simp add: onKeyUp_on_block [OF line_break_block_fields(2)])
  show ?thesis
    using a b c by (simp add: line_break_block_fields render_listeners_def)
qed

end
